theory Spec2Isabelle
  imports Main
begin

section \<open>Synergy codes: formatting\<close>

text \<open>
  Python's \<open>str(int(seq))\<close> and \<open>str.zfill\<close>, as used by the three copies of
  \<open>fmt_synergy\<close>. Sequence numbers are Python integers, hence \<open>int\<close>. A string is
  a list of characters; each character stands for one code point below 256.
\<close>

definition digit_char :: "nat \<Rightarrow> char" where
  "digit_char d = ''0123456789'' ! d"

fun dec :: "nat \<Rightarrow> string" where
  "dec n = (if n < 10 then [digit_char n] else dec (n div 10) @ [digit_char (n mod 10)])"

declare dec.simps [simp del]

definition str_int :: "int \<Rightarrow> string" where
  "str_int i = (if i < 0 then CHR ''-'' # dec (nat (- i)) else dec (nat i))"

text \<open>\<open>s.zfill(w)\<close>: pad on the left with zeros up to width \<open>w\<close>, after a leading sign.\<close>

definition zfill :: "nat \<Rightarrow> string \<Rightarrow> string" where
  "zfill w s =
     (if w \<le> length s then s
      else (case s of
              [] \<Rightarrow> replicate w (CHR ''0'')
            | c # r \<Rightarrow>
                if c = CHR ''+'' \<or> c = CHR ''-''
                then c # replicate (w - length s) (CHR ''0'') @ r
                else replicate (w - length s) (CHR ''0'') @ s))"

text \<open>\<open>fmt_synergy\<close> of \<open>fastapi/routes_synergy.py\<close>: \<open>zfill(5)\<close>.\<close>

definition fmt_synergy :: "string \<Rightarrow> int \<Rightarrow> string" where
  "fmt_synergy prefix seq = prefix @ ''-'' @ zfill 5 (str_int seq)"

text \<open>\<open>fmt_synergy\<close> of \<open>main.py\<close>: \<open>zfill(4)\<close>.\<close>

definition fmt_synergy_main :: "string \<Rightarrow> int \<Rightarrow> string" where
  "fmt_synergy_main prefix seq = prefix @ ''-'' @ zfill 4 (str_int seq)"

text \<open>\<open>fmt_synergy\<close> of \<open>scraper-py/app.py\<close>: \<open>zfill(4)\<close> as well.\<close>

definition fmt_synergy_scraper :: "string \<Rightarrow> int \<Rightarrow> string" where
  "fmt_synergy_scraper prefix seq = prefix @ ''-'' @ zfill 4 (str_int seq)"

text \<open>Reading a formatted number back; used only to show that formatting is injective.\<close>

definition digit_val :: "char \<Rightarrow> nat" where
  "digit_val c = of_char c - 48"

definition undec :: "string \<Rightarrow> nat" where
  "undec s = foldl (\<lambda>a c. 10 * a + digit_val c) 0 s"


text \<open>\<open>str.strip()\<close>: whitespace removed at both ends.\<close>

definition py_isspace :: "char \<Rightarrow> bool" where
  "py_isspace c = ((of_char c :: nat) \<in> {9, 10, 11, 12, 13, 28, 29, 30, 31, 32, 133, 160})"

definition strip :: "string \<Rightarrow> string" where
  "strip s = rev (dropWhile py_isspace (rev (dropWhile py_isspace s)))"


section \<open>The SQL expressions of the recovery scan\<close>

text \<open>
  The scan is the query
  \<^verbatim>\<open>SELECT COALESCE(MAX(CAST(NULLIF(SPLIT_PART(synergy_id, '-', 2), '') AS INTEGER)), 0)
  FROM {table} WHERE synergy_id LIKE prefix || '-%'\<close>.
  \<open>LIKE\<close> has the wildcards \<open>%\<close> and \<open>_\<close> and the escape character backslash; the
  patterns of this program end in \<open>-%\<close>, so the escape character is never last.
\<close>

fun sql_like :: "string \<Rightarrow> string \<Rightarrow> bool" where
  "sql_like [] s = (s = [])"
| "sql_like (p # ps) s =
     (if p = CHR ''%'' then
        (sql_like ps s \<or> (case s of [] \<Rightarrow> False | _ # t \<Rightarrow> sql_like (p # ps) t))
      else if p = CHR ''_'' then
        (case s of [] \<Rightarrow> False | _ # t \<Rightarrow> sql_like ps t)
      else if p = CHR 0x5C then
        (case ps of [] \<Rightarrow> False
         | q # qs \<Rightarrow> (case s of [] \<Rightarrow> False | c # t \<Rightarrow> c = q \<and> sql_like qs t))
      else
        (case s of [] \<Rightarrow> False | c # t \<Rightarrow> c = p \<and> sql_like ps t))"

text \<open>\<open>SPLIT_PART(s, '-', 2)\<close>: the second dash-separated field, empty when there is none.\<close>

definition split_part2 :: "string \<Rightarrow> string" where
  "split_part2 s =
     (case dropWhile (\<lambda>c. c \<noteq> CHR ''-'') s of
        [] \<Rightarrow> []
      | _ # r \<Rightarrow> takeWhile (\<lambda>c. c \<noteq> CHR ''-'') r)"

definition is_digit :: "char \<Rightarrow> bool" where
  "is_digit c = (48 \<le> (of_char c :: nat) \<and> (of_char c :: nat) \<le> 57)"

definition pg_isspace :: "char \<Rightarrow> bool" where
  "pg_isspace c = ((of_char c :: nat) \<in> {9, 10, 11, 12, 13, 32})"

text \<open>
  \<open>CAST(text AS INTEGER)\<close>: optional blanks, an optional sign, decimal digits, optional
  blanks; anything else, and a value outside the 32-bit range, is an error (\<open>None\<close>).
\<close>

definition pg_int4 :: "string \<Rightarrow> int option" where
  "pg_int4 s =
     (let t = dropWhile pg_isspace s;
          neg = (t \<noteq> [] \<and> hd t = CHR ''-'');
          u = (if t \<noteq> [] \<and> (hd t = CHR ''-'' \<or> hd t = CHR ''+'') then tl t else t);
          ds = takeWhile is_digit u;
          rest = dropWhile is_digit u;
          v = (if neg then - int (undec ds) else int (undec ds))
      in if ds = [] \<or> \<not> list_all pg_isspace rest then None
         else if v < - 2147483648 \<or> 2147483647 < v then None
         else Some v)"


section \<open>Persisted state\<close>

text \<open>
  Row identifiers are UUIDs; only their equality and their order matter, so they are
  natural numbers here. Money amounts are numbers copied from a line to its items.
\<close>

type_synonym uuid = nat

text \<open>
  \<open>raw_json\<close> of a line: every writer of the repository stores \<open>json.dumps\<close> of the
  imported row, a JSON object; \<open>specs\<close> and \<open>item_notes\<close> are its two fields read by the
  explosion (\<open>None\<close>: absent or falsy).
\<close>

record raw_line =
  specs :: "string option"
  item_notes :: "string option"

record po_line =
  pl_id :: uuid
  pl_purchase_order_id :: uuid
  pl_created_at :: "nat option"
  pl_product_name_raw :: "string option"
  pl_qty :: "int option"
  pl_unit_cost :: "int option"
  pl_msrp :: "int option"
  pl_category_guess :: "uuid option"
  pl_synergy_id :: "string option"
  pl_raw_json :: "raw_line option"

text \<open>
  \<open>inventory_items\<close>: every \<open>INSERT\<close> of the repository writes the code of an item to the
  column \<open>synergy_code\<close>; the recovery scan reads the column \<open>synergy_id\<close> of the same
  table, which no \<open>INSERT\<close> names. The table declaration is not part of the sources, so
  both columns are kept apart.
\<close>

record inventory_item =
  ii_synergy_code :: string
  ii_synergy_id :: "string option"
  ii_purchase_order_id :: "uuid option"
  ii_po_line_id :: "uuid option"
  ii_category_id :: "uuid option"
  ii_cost_unit :: int
  ii_msrp :: int
  ii_status :: string
  ii_specs :: string
  ii_tester_comment :: "string option"

datatype event_meta =
    MetaSource string
  | MetaSafeNext int
  | MetaManual int int "string option"

record synergy_event =
  ev_actor_name :: "string option"
  ev_po_id :: "uuid option"
  ev_po_line_id :: "uuid option"
  ev_inventory_id :: "uuid option"
  ev_prefix :: string
  ev_code :: string
  ev_seq :: int
  ev_event_type :: string
  ev_meta :: event_meta

text \<open>
  \<open>id_prefix_counters\<close> has the primary key \<open>prefix\<close> (the upsert names it in
  \<open>ON CONFLICT\<close>) and a column \<open>next_seq\<close> that the code tests for \<open>NULL\<close>.

  What a cursor works on is the tables and the transaction it is in. \<open>txn_aborted\<close> is
  the status of that transaction: after a statement has failed, PostgreSQL refuses every
  further statement of the transaction (\<open>InFailedSqlTransaction\<close>) and ends it by a
  rollback, also when asked to commit. The source sets no savepoint.
\<close>

record db =
  id_prefix_counters :: "string \<rightharpoonup> int option"
  inventory_items :: "inventory_item list"
  po_lines :: "po_line list"
  categories :: "uuid \<rightharpoonup> string option"
  synergy_id_events :: "synergy_event list"
  txn_aborted :: bool

datatype table = InventoryItems | PoLines

datatype stmt = SelectCounter | ScanMax table | UpsertCounter | InsertEvent

datatype error =
    DbError stmt
  | InFailedSqlTransaction
  | InvalidInteger string
  | UniqueViolation string
  | Http400 string
  | Http400SafeNext string int
  | NameError string
  | TypeError

text \<open>
  What the program cannot see in its own text: which statements of the counter store
  and the audit log the server rejects (\<open>fails\<close>), the clock of \<open>NOW()\<close>, and the value
  the table gives to \<open>inventory_items.synergy_id\<close> of a row inserted with a given code.
\<close>

record env =
  fails :: "stmt \<Rightarrow> bool"
  now :: nat
  sid_default :: "string \<Rightarrow> string option"

text \<open>
  \<open>cur.execute\<close> of one of these statements: the exception it raises, if any. In an
  aborted transaction every statement is refused; a rejected statement changes nothing.
\<close>

definition cur_execute :: "env \<Rightarrow> stmt \<Rightarrow> db \<Rightarrow> error option" where
  "cur_execute E s d =
     (if txn_aborted d then Some InFailedSqlTransaction
      else if fails E s then Some (DbError s)
      else None)"

text \<open>
  \<open>with db() as (con, cur)\<close>: the body runs in a transaction of its own, which begins when
  the first statement is executed. When the body raises, \<open>con.rollback()\<close>; when it
  returns, \<open>con.commit()\<close>, which for an aborted transaction is a rollback that raises
  nothing: the request returns its result and nothing is written.
\<close>

definition db_txn :: "(db \<Rightarrow> error + ('a \<times> db)) \<Rightarrow> db \<Rightarrow> (error + 'a) \<times> db" where
  "db_txn body d =
     (case body (d\<lparr>txn_aborted := False\<rparr>) of
        Inl e \<Rightarrow> (Inl e, d)
      | Inr (r, d') \<Rightarrow> (Inr r, if txn_aborted d' then d else d'))"


section \<open>Recovery scan\<close>

definition scanned_column :: "table \<Rightarrow> db \<Rightarrow> string option list" where
  "scanned_column t d =
     (case t of
        InventoryItems \<Rightarrow> map ii_synergy_id (inventory_items d)
      | PoLines \<Rightarrow> map pl_synergy_id (po_lines d))"

text \<open>One row of the scan: filtered out, \<open>NULL\<close> after \<open>NULLIF\<close>, a number, or a failed cast.\<close>

definition row_seq :: "string \<Rightarrow> string option \<Rightarrow> error + int option" where
  "row_seq prefix sid =
     (case sid of
        None \<Rightarrow> Inr None
      | Some s \<Rightarrow>
          if \<not> sql_like (prefix @ ''-%'') s then Inr None
          else if split_part2 s = [] then Inr None
          else (case pg_int4 (split_part2 s) of
                  None \<Rightarrow> Inl (InvalidInteger (split_part2 s))
                | Some v \<Rightarrow> Inr (Some v)))"

fun sql_max :: "string \<Rightarrow> string option list \<Rightarrow> error + int option" where
  "sql_max prefix [] = Inr None"
| "sql_max prefix (sid # col) =
     (case row_seq prefix sid of
        Inl e \<Rightarrow> Inl e
      | Inr v \<Rightarrow>
          (case sql_max prefix col of
             Inl e \<Rightarrow> Inl e
           | Inr m \<Rightarrow>
               Inr (case v of
                      None \<Rightarrow> m
                    | Some a \<Rightarrow> (case m of None \<Rightarrow> Some a | Some b \<Rightarrow> Some (max a b)))))"

definition max_seq_query :: "string \<Rightarrow> string option list \<Rightarrow> error + int" where
  "max_seq_query prefix col =
     (case sql_max prefix col of
        Inl e \<Rightarrow> Inl e
      | Inr None \<Rightarrow> Inr 0
      | Inr (Some m) \<Rightarrow> Inr m)"

text \<open>The loop \<open>for table in ["inventory_items", "po_lines"]\<close> with its running maximum.\<close>

fun scan_tables :: "env \<Rightarrow> db \<Rightarrow> string \<Rightarrow> table list \<Rightarrow> int \<Rightarrow> error + int" where
  "scan_tables E d prefix [] true_max_seq = Inr true_max_seq"
| "scan_tables E d prefix (t # ts) true_max_seq =
     (case cur_execute E (ScanMax t) d of
        Some e \<Rightarrow> Inl e
      | None \<Rightarrow>
          (case max_seq_query prefix (scanned_column t d) of
             Inl e \<Rightarrow> Inl e
           | Inr max_seq \<Rightarrow> scan_tables E d prefix ts (max true_max_seq max_seq)))"

definition get_true_max_seq :: "env \<Rightarrow> db \<Rightarrow> string \<Rightarrow> error + int" where
  "get_true_max_seq E d prefix = scan_tables E d prefix [InventoryItems, PoLines] 0"

text \<open>
  The sequence numbers the scan reads for a prefix, in both tables: those of
  \<open>inventory_items.synergy_id\<close> and of \<open>po_lines.synergy_id\<close>.
\<close>

definition column_seqs :: "string \<Rightarrow> string option list \<Rightarrow> int list" where
  "column_seqs prefix col =
     List.map_filter
       (\<lambda>sid. case row_seq prefix sid of Inr (Some v) \<Rightarrow> Some v | _ \<Rightarrow> None) col"

definition seqs_present :: "db \<Rightarrow> string \<Rightarrow> int list" where
  "seqs_present d prefix =
     column_seqs prefix (scanned_column InventoryItems d)
     @ column_seqs prefix (scanned_column PoLines d)"

text \<open>
  The sequence numbers of the codes that the items carry, in \<open>synergy_code\<close>, and of the
  codes on the lines; and all sequence numbers present for a prefix in either table.
\<close>

definition item_code_seqs :: "db \<Rightarrow> string \<Rightarrow> int list" where
  "item_code_seqs d prefix =
     column_seqs prefix (map (\<lambda>i. Some (ii_synergy_code i)) (inventory_items d))"

definition line_seqs :: "db \<Rightarrow> string \<Rightarrow> int list" where
  "line_seqs d prefix = column_seqs prefix (scanned_column PoLines d)"

definition seqs_in_use :: "db \<Rightarrow> string \<Rightarrow> int list" where
  "seqs_in_use d prefix = item_code_seqs d prefix @ seqs_present d prefix"


section \<open>Allocation\<close>

record mint_ctx =
  actor_name :: "string option"
  po_id :: "uuid option"
  po_line_id :: "uuid option"
  inventory_id :: "uuid option"

definition no_ctx :: mint_ctx where
  "no_ctx = \<lparr>actor_name = None, po_id = None, po_line_id = None, inventory_id = None\<rparr>"

definition upsert_counter :: "string \<Rightarrow> int \<Rightarrow> db \<Rightarrow> db" where
  "upsert_counter prefix n d =
     d\<lparr>id_prefix_counters := (id_prefix_counters d)(prefix \<mapsto> Some n)\<rparr>"

definition log_synergy_event :: "env \<Rightarrow> synergy_event \<Rightarrow> db \<Rightarrow> error + db" where
  "log_synergy_event E ev d =
     (case cur_execute E InsertEvent d of
        Some e \<Rightarrow> Inl e
      | None \<Rightarrow> Inr (d\<lparr>synergy_id_events := synergy_id_events d @ [ev]\<rparr>))"

text \<open>
  Step 1 of \<open>_get_next_synergy_code\<close>: the locked read of the counter row and, when
  there is no row or its \<open>next_seq\<close> is \<open>NULL\<close>, the scan of both tables.
\<close>

definition reserve_seq :: "env \<Rightarrow> db \<Rightarrow> string \<Rightarrow> error + int" where
  "reserve_seq E d prefix =
     (case cur_execute E SelectCounter d of
        Some e \<Rightarrow> Inl e
      | None \<Rightarrow>
          (case id_prefix_counters d prefix of
             Some (Some next_seq) \<Rightarrow> Inr next_seq
           | _ \<Rightarrow>
               (case get_true_max_seq E d prefix of
                  Inl e \<Rightarrow> Inl e
                | Inr true_max_seq \<Rightarrow> Inr (true_max_seq + 1))))"

definition mint_event :: "string \<Rightarrow> int \<Rightarrow> string \<Rightarrow> mint_ctx \<Rightarrow> synergy_event" where
  "mint_event prefix seq code who =
     \<lparr>ev_actor_name = actor_name who, ev_po_id = po_id who,
      ev_po_line_id = po_line_id who, ev_inventory_id = inventory_id who,
      ev_prefix = prefix, ev_code = code, ev_seq = seq, ev_event_type = ''mint'',
      ev_meta = MetaSource ''_get_next_synergy_code''\<rparr>"

text \<open>
  Steps 2 to 4: the code, the upsert of \<open>next_seq + 1\<close>, and the audit insert inside
  \<open>try ... except Exception: pass\<close>. The \<open>except\<close> clause drops the exception of a rejected
  insert and the code is returned, but the rejected insert has aborted the transaction
  the upsert was made in.
\<close>

definition advance_counter ::
  "env \<Rightarrow> string \<Rightarrow> mint_ctx \<Rightarrow> int \<Rightarrow> db \<Rightarrow> error + (string \<times> db)" where
  "advance_counter E prefix who next_seq d =
     (let new_code = fmt_synergy prefix next_seq in
      case cur_execute E UpsertCounter d of
        Some e \<Rightarrow> Inl e
      | None \<Rightarrow>
          (let d1 = upsert_counter prefix (next_seq + 1) d in
           case log_synergy_event E (mint_event prefix next_seq new_code who) d1 of
             Inl e \<Rightarrow> Inr (new_code, d1\<lparr>txn_aborted := True\<rparr>)
           | Inr d2 \<Rightarrow> Inr (new_code, d2)))"

definition get_next_synergy_code ::
  "env \<Rightarrow> string \<Rightarrow> mint_ctx \<Rightarrow> db \<Rightarrow> error + (string \<times> db)" where
  "get_next_synergy_code E prefix who d =
     (case reserve_seq E d prefix of
        Inl e \<Rightarrow> Inl e
      | Inr next_seq \<Rightarrow> advance_counter E prefix who next_seq d)"

definition prefix_take :: "env \<Rightarrow> string \<Rightarrow> db \<Rightarrow> error + (string \<times> db)" where
  "prefix_take E prefix d = get_next_synergy_code E prefix no_ctx d"



section \<open>Manual admin operations\<close>

text \<open>\<open>prefix_reset\<close>: the counter is set to one after the scan's maximum and logged.\<close>

definition prefix_reset :: "env \<Rightarrow> string \<Rightarrow> string option \<Rightarrow> db \<Rightarrow> error + (int \<times> db)" where
  "prefix_reset E prefix actor d =
     (case get_true_max_seq E d prefix of
        Inl e \<Rightarrow> Inl e
      | Inr true_max_seq \<Rightarrow>
          (let safe_next = true_max_seq + 1 in
           case cur_execute E UpsertCounter d of
             Some e \<Rightarrow> Inl e
           | None \<Rightarrow>
               (case log_synergy_event E
                       \<lparr>ev_actor_name = actor, ev_po_id = None, ev_po_line_id = None,
                        ev_inventory_id = None, ev_prefix = prefix,
                        ev_code = fmt_synergy prefix safe_next, ev_seq = safe_next,
                        ev_event_type = ''reset_to_default'',
                        ev_meta = MetaSafeNext safe_next\<rparr>
                       (upsert_counter prefix safe_next d) of
                  Inl e \<Rightarrow> Inl e
                | Inr d2 \<Rightarrow> Inr (safe_next, d2))))"

text \<open>\<open>old_next = int(row.get("next_seq") or 0)\<close> of \<open>prefix_set\<close>.\<close>

definition old_next_seq :: "db \<Rightarrow> string \<Rightarrow> int" where
  "old_next_seq d prefix =
     (case id_prefix_counters d prefix of Some (Some n) \<Rightarrow> n | _ \<Rightarrow> 0)"

text \<open>\<open>safe_min_next = max(true_max_seq + 1, old_next or 1)\<close>.\<close>

definition safe_min_next :: "int \<Rightarrow> int \<Rightarrow> int" where
  "safe_min_next true_max_seq old_next =
     max (true_max_seq + 1) (if old_next = 0 then 1 else old_next)"

definition reject_message :: "string \<Rightarrow> int \<Rightarrow> int \<Rightarrow> string" where
  "reject_message prefix nxt safe =
     ''Cannot set next sequence for prefix '' @ prefix @ '' to '' @ str_int nxt
     @ '' because IDs up to '' @ str_int (safe - 1) @ '' may already exist. ''
     @ ''The minimum safe value is '' @ str_int safe @ ''.''"

text \<open>
  \<open>prefix_set\<close> of \<open>fastapi/routes_synergy.py\<close>; \<open>nxt\<close> is the request's \<open>next\<close> after
  \<open>int()\<close>.
\<close>

definition prefix_set ::
  "env \<Rightarrow> string \<Rightarrow> int \<Rightarrow> string option \<Rightarrow> string option \<Rightarrow> db \<Rightarrow> error + (int \<times> db)" where
  "prefix_set E prefix nxt actor reason d =
     (if nxt < 1 then Inl (Http400 ''next must be >= 1'')
      else (case cur_execute E SelectCounter d of
              Some e \<Rightarrow> Inl e
            | None \<Rightarrow>
               (let old_next = old_next_seq d prefix in
                case get_true_max_seq E d prefix of
                  Inl e \<Rightarrow> Inl e
                | Inr true_max_seq \<Rightarrow>
                    if nxt < safe_min_next true_max_seq old_next
                    then Inl (Http400SafeNext
                                (reject_message prefix nxt (safe_min_next true_max_seq old_next))
                                (safe_min_next true_max_seq old_next))
                    else (case cur_execute E UpsertCounter d of
                            Some e \<Rightarrow> Inl e
                          | None \<Rightarrow>
                             (case log_synergy_event E
                                     \<lparr>ev_actor_name = actor, ev_po_id = None,
                                      ev_po_line_id = None, ev_inventory_id = None,
                                      ev_prefix = prefix, ev_code = fmt_synergy prefix nxt,
                                      ev_seq = nxt, ev_event_type = ''manual_set_next'',
                                      ev_meta = MetaManual old_next nxt reason\<rparr>
                                     (upsert_counter prefix nxt d) of
                                Inl e \<Rightarrow> Inl e
                              | Inr d2 \<Rightarrow> Inr (nxt, d2))))))"

text \<open>The safe minimum carried by an error, when it carries one.\<close>

definition error_safe_next :: "error \<Rightarrow> int option" where
  "error_safe_next e = (case e of Http400SafeNext msg n \<Rightarrow> Some n | _ \<Rightarrow> None)"

text \<open>
  Is there a counter row for the prefix whose \<open>next_seq\<close> is above every number of a list?
  Above every sequence number present for the prefix on the items (their codes) and on
  the lines? Above every sequence number on the lines?
\<close>

definition counter_above :: "db \<Rightarrow> string \<Rightarrow> int list \<Rightarrow> bool" where
  "counter_above d prefix vs =
     (case id_prefix_counters d prefix of
        Some (Some n) \<Rightarrow> list_all (\<lambda>v. v < n) vs
      | _ \<Rightarrow> False)"

definition counter_above_used :: "db \<Rightarrow> string \<Rightarrow> bool" where
  "counter_above_used d prefix = counter_above d prefix (seqs_in_use d prefix)"


text \<open>
  No code of an item lies beyond the reach of the scan: every sequence number on an
  item's code is at most one that the scan reads.
\<close>

definition scan_reaches_items :: "db \<Rightarrow> string \<Rightarrow> bool" where
  "scan_reaches_items d prefix =
     list_all (\<lambda>v. list_ex (\<lambda>u. v \<le> u) (seqs_present d prefix)) (item_code_seqs d prefix)"


section \<open>The allocator and the manual set of \<open>main.py\<close>\<close>

text \<open>
  \<open>_take_synergy\<close> of \<open>main.py\<close>: an existing row is read and incremented in place, a
  missing row starts at 1. A row whose \<open>next_seq\<close> is \<open>NULL\<close> makes \<open>int(seq)\<close> raise.
\<close>

definition take_synergy_main :: "env \<Rightarrow> string \<Rightarrow> db \<Rightarrow> error + (string \<times> db)" where
  "take_synergy_main E prefix d =
     (case cur_execute E SelectCounter d of
        Some e \<Rightarrow> Inl e
      | None \<Rightarrow>
          (case id_prefix_counters d prefix of
             Some r \<Rightarrow>
               (case cur_execute E UpsertCounter d of
                  Some e \<Rightarrow> Inl e
                | None \<Rightarrow>
                    (case r of
                       None \<Rightarrow> Inl TypeError
                     | Some next_seq \<Rightarrow>
                         Inr (fmt_synergy_main prefix next_seq,
                              upsert_counter prefix (next_seq + 1) d)))
           | None \<Rightarrow>
               (case cur_execute E UpsertCounter d of
                  Some e \<Rightarrow> Inl e
                | None \<Rightarrow> Inr (fmt_synergy_main prefix 1, upsert_counter prefix 2 d))))"

text \<open>\<open>prefix_set\<close> of \<open>main.py\<close>: only \<open>next >= 1\<close> is checked.\<close>

definition prefix_set_main :: "env \<Rightarrow> string \<Rightarrow> int \<Rightarrow> db \<Rightarrow> error + (int \<times> db)" where
  "prefix_set_main E prefix nxt d =
     (if nxt < 1 then Inl (Http400 ''next must be >=1'')
      else (case cur_execute E UpsertCounter d of
              Some e \<Rightarrow> Inl e
            | None \<Rightarrow> Inr (nxt, upsert_counter prefix nxt d)))"


section \<open>Lines, their prefix and their order\<close>

text \<open>\<open>c.prefix\<close> of \<open>po_lines pl LEFT JOIN categories c ON c.id = pl.category_guess\<close>.\<close>

definition line_prefix :: "db \<Rightarrow> po_line \<Rightarrow> string option" where
  "line_prefix d l =
     (case pl_category_guess l of
        None \<Rightarrow> None
      | Some c \<Rightarrow> (case categories d c of None \<Rightarrow> None | Some p \<Rightarrow> p))"

text \<open>\<open>(x or "").strip()\<close>.\<close>

definition or_empty_strip :: "string option \<Rightarrow> string" where
  "or_empty_strip x = strip (case x of None \<Rightarrow> [] | Some s \<Rightarrow> s)"

text \<open>\<open>int(qty or 1)\<close>, and \<open>int(qty or 1) or 1\<close>, of a nullable quantity.\<close>

definition line_qty :: "po_line \<Rightarrow> int" where
  "line_qty l = (case pl_qty l of None \<Rightarrow> 1 | Some q \<Rightarrow> if q = 0 then 1 else q)"

text \<open>\<open>COALESCE(pl.created_at, NOW())\<close>.\<close>

definition created_or :: "nat \<Rightarrow> po_line \<Rightarrow> nat" where
  "created_or t l = (case pl_created_at l of None \<Rightarrow> t | Some c \<Rightarrow> c)"

text \<open>\<open>ORDER BY COALESCE(pl.created_at, NOW()) ASC, pl.id ASC\<close>, by two stable sorts.\<close>

definition order_created_id :: "nat \<Rightarrow> po_line list \<Rightarrow> po_line list" where
  "order_created_id t ls = sort_key (created_or t) (sort_key pl_id ls)"


section \<open>Preview\<close>

record preview =
  pv_line_id :: uuid
  pv_product_name_raw :: "string option"
  pv_prefix :: string
  pv_qty :: int
  pv_codes :: "string list"
  pv_note :: "string option"

text \<open>
  The nested \<open>max_seq_for_prefix\<close>: the memo \<open>seq_by_prefix\<close> first, else the scan of
  both tables, whose result is stored in the memo.
\<close>

definition max_seq_for_prefix ::
  "env \<Rightarrow> db \<Rightarrow> (string \<rightharpoonup> int) \<Rightarrow> string \<Rightarrow> error + (int \<times> (string \<rightharpoonup> int))" where
  "max_seq_for_prefix E d seq_by_prefix prefix =
     (if prefix = [] \<or> seq_by_prefix prefix \<noteq> None
      then Inr (case seq_by_prefix prefix of None \<Rightarrow> 0 | Some v \<Rightarrow> v, seq_by_prefix)
      else (case get_true_max_seq E d prefix of
              Inl e \<Rightarrow> Inl e
            | Inr max_seq \<Rightarrow> Inr (max_seq, seq_by_prefix(prefix \<mapsto> max_seq))))"

definition preview_codes :: "string \<Rightarrow> int \<Rightarrow> int \<Rightarrow> string list" where
  "preview_codes prefix start qty =
     map (\<lambda>i. prefix @ ''-'' @ zfill 5 (str_int (start + int i))) [0 ..< nat qty]"

fun preview_rows ::
  "env \<Rightarrow> db \<Rightarrow> (po_line \<times> string option) list \<Rightarrow> (string \<rightharpoonup> int) \<Rightarrow> error + preview list" where
  "preview_rows E d [] seq_by_prefix = Inr []"
| "preview_rows E d ((r, p) # rows) seq_by_prefix =
     (let qty = line_qty r; prefix = or_empty_strip p in
      if prefix = [] then
        (case preview_rows E d rows seq_by_prefix of
           Inl e \<Rightarrow> Inl e
         | Inr previews \<Rightarrow>
             Inr (\<lparr>pv_line_id = pl_id r, pv_product_name_raw = pl_product_name_raw r,
                   pv_prefix = [], pv_qty = qty, pv_codes = [],
                   pv_note = Some ''No category prefix; cannot preview.''\<rparr> # previews))
      else
        (case max_seq_for_prefix E d seq_by_prefix prefix of
           Inl e \<Rightarrow> Inl e
         | Inr (max_seq, memo) \<Rightarrow>
             (let start = max_seq + 1 in
              case preview_rows E d rows (memo(prefix \<mapsto> start + qty - 1)) of
                Inl e \<Rightarrow> Inl e
              | Inr previews \<Rightarrow>
                  Inr (\<lparr>pv_line_id = pl_id r, pv_product_name_raw = pl_product_name_raw r,
                        pv_prefix = prefix, pv_qty = qty,
                        pv_codes = preview_codes prefix start qty,
                        pv_note = None\<rparr> # previews))))"

definition synergy_preview ::
  "env \<Rightarrow> uuid \<Rightarrow> uuid list \<Rightarrow> db \<Rightarrow> error + (preview list \<times> string)" where
  "synergy_preview E po line_ids d =
     (if line_ids = [] then Inr ([], ''No line_ids provided.'')
      else (case preview_rows E d
                   (map (\<lambda>l. (l, line_prefix d l))
                      (order_created_id (now E)
                         (filter (\<lambda>l. pl_purchase_order_id l = po \<and> pl_id l \<in> set line_ids)
                            (po_lines d))))
                   Map.empty of
              Inl e \<Rightarrow> Inl e
            | Inr previews \<Rightarrow> Inr (previews, ''Local preview generated.'')))"


section \<open>Mint\<close>

text \<open>
  \<open>UPDATE po_lines SET synergy_id = code WHERE id = line_id\<close>; in the loop of the mint it
  is the statement after the allocation, refused when the allocation has left the
  transaction aborted.
\<close>

definition set_line_synergy_id :: "uuid \<Rightarrow> string option \<Rightarrow> db \<Rightarrow> db" where
  "set_line_synergy_id lid v d =
     d\<lparr>po_lines := map (\<lambda>l. if pl_id l = lid then l\<lparr>pl_synergy_id := v\<rparr> else l) (po_lines d)\<rparr>"

text \<open>The \<open>UPDATE po_lines SET synergy_id = NULL\<close> of \<open>overwrite\<close>.\<close>

definition clear_synergy_ids :: "uuid \<Rightarrow> uuid list \<Rightarrow> db \<Rightarrow> db" where
  "clear_synergy_ids po line_ids d =
     d\<lparr>po_lines :=
         map (\<lambda>l. if (if line_ids \<noteq> [] then pl_id l \<in> set line_ids
                       else pl_purchase_order_id l = po)
                   then l\<lparr>pl_synergy_id := None\<rparr> else l)
           (po_lines d)\<rparr>"

fun mint_rows ::
  "env \<Rightarrow> (uuid \<times> string option) list \<Rightarrow> nat \<times> db \<Rightarrow> error + (nat \<times> db)" where
  "mint_rows E [] (updated, d) = Inr (updated, d)"
| "mint_rows E ((line_id, p) # rows) (updated, d) =
     (let prefix = or_empty_strip p in
      if prefix = [] then mint_rows E rows (updated, d)
      else (case get_next_synergy_code E prefix no_ctx d of
              Inl e \<Rightarrow> Inl e
            | Inr (code, d1) \<Rightarrow>
                if txn_aborted d1 then Inl InFailedSqlTransaction
                else mint_rows E rows
                       (updated + 1, set_line_synergy_id line_id (Some code) d1)))"

definition mint_synergy ::
  "env \<Rightarrow> uuid \<Rightarrow> uuid list \<Rightarrow> bool \<Rightarrow> db \<Rightarrow> error + (nat \<times> db)" where
  "mint_synergy E po line_ids overwrite d =
     (let d0 = (if overwrite then clear_synergy_ids po line_ids d else d);
          rows_to_mint =
            map (\<lambda>l. (pl_id l, line_prefix d0 l))
              (order_created_id (now E)
                 (filter (\<lambda>l. pl_purchase_order_id l = po
                              \<and> (line_ids = [] \<or> pl_id l \<in> set line_ids)
                              \<and> pl_synergy_id l = None)
                    (po_lines d0)))
      in mint_rows E rows_to_mint (0, d0))"


section \<open>Explosion\<close>

record explode_result =
  res_created :: nat
  res_skipped :: int
  res_state :: string

text \<open>
  \<open>inventory_items.synergy_code\<close> is unique (other statements of the repository name it
  in \<open>ON CONFLICT (synergy_code)\<close>), so the plain \<open>INSERT\<close> of the explosion raises on a
  code that the table already holds. It is the statement after the code of a unit has
  been chosen, refused in an aborted transaction.
\<close>

definition insert_inventory_item :: "inventory_item \<Rightarrow> db \<Rightarrow> error + db" where
  "insert_inventory_item it d =
     (if txn_aborted d then Inl InFailedSqlTransaction
      else if ii_synergy_code it \<in> set (map ii_synergy_code (inventory_items d))
      then Inl (UniqueViolation (ii_synergy_code it))
      else Inr (d\<lparr>inventory_items := inventory_items d @ [it]\<rparr>))"

definition new_item :: "env \<Rightarrow> uuid \<Rightarrow> po_line \<Rightarrow> string \<Rightarrow> inventory_item" where
  "new_item E po ln code =
     \<lparr>ii_synergy_code = code,
      ii_synergy_id = sid_default E code,
      ii_purchase_order_id = Some po,
      ii_po_line_id = Some (pl_id ln),
      ii_category_id = pl_category_guess ln,
      ii_cost_unit = (case pl_unit_cost ln of None \<Rightarrow> 0 | Some c \<Rightarrow> c),
      ii_msrp = (case pl_msrp ln of None \<Rightarrow> 0 | Some m \<Rightarrow> m),
      ii_status = ''INTAKE'',
      ii_specs = (case pl_raw_json ln of
                    None \<Rightarrow> ''{}''
                  | Some raw \<Rightarrow> (case specs raw of None \<Rightarrow> ''{}'' | Some s \<Rightarrow> s)),
      ii_tester_comment = (case pl_raw_json ln of None \<Rightarrow> None | Some raw \<Rightarrow> item_notes raw)\<rparr>"

text \<open>
  The code of one unit: the line's pre-minted code while no item of the purchase order
  carries it, else a fresh allocation.
\<close>

definition unit_code ::
  "env \<Rightarrow> po_line \<Rightarrow> string \<Rightarrow> string list \<times> db \<Rightarrow> error + (string \<times> string list \<times> db)" where
  "unit_code E ln prefix st =
     (case st of (existing_codes, d) \<Rightarrow>
        (case pl_synergy_id ln of
           Some pre_minted \<Rightarrow>
             if pre_minted \<noteq> [] \<and> pre_minted \<notin> set existing_codes
             then Inr (pre_minted, pre_minted # existing_codes, d)
             else (case get_next_synergy_code E prefix no_ctx d of
                     Inl e \<Rightarrow> Inl e
                   | Inr (code, d1) \<Rightarrow> Inr (code, existing_codes, d1))
         | None \<Rightarrow>
             (case get_next_synergy_code E prefix no_ctx d of
                Inl e \<Rightarrow> Inl e
              | Inr (code, d1) \<Rightarrow> Inr (code, existing_codes, d1))))"

text \<open>\<open>for i in range(need)\<close>.\<close>

fun explode_units ::
  "env \<Rightarrow> uuid \<Rightarrow> po_line \<Rightarrow> string \<Rightarrow> nat \<Rightarrow> nat \<times> string list \<times> db
     \<Rightarrow> error + (nat \<times> string list \<times> db)" where
  "explode_units E po ln prefix 0 st = Inr st"
| "explode_units E po ln prefix (Suc n) (created, existing_codes, d) =
     (case unit_code E ln prefix (existing_codes, d) of
        Inl e \<Rightarrow> Inl e
      | Inr (code, codes1, d1) \<Rightarrow>
          (case insert_inventory_item (new_item E po ln code) d1 of
             Inl e \<Rightarrow> Inl e
           | Inr d2 \<Rightarrow> explode_units E po ln prefix n (created + 1, codes1, d2)))"

text \<open>\<open>for ln in rows\<close>; \<open>existing_counts\<close> is read once, before the loop.\<close>

fun explode_rows ::
  "env \<Rightarrow> uuid \<Rightarrow> (uuid \<Rightarrow> nat) \<Rightarrow> (po_line \<times> string) list \<Rightarrow> nat \<times> int \<times> string list \<times> db
     \<Rightarrow> error + (nat \<times> int \<times> string list \<times> db)" where
  "explode_rows E po existing_counts [] st = Inr st"
| "explode_rows E po existing_counts ((ln, p) # rows) (created, skipped, existing_codes, d) =
     (let qty = line_qty ln; prefix = strip p in
      if pl_category_guess ln = None \<or> prefix = []
      then explode_rows E po existing_counts rows (created, skipped + qty, existing_codes, d)
      else (let have = existing_counts (pl_id ln); need = max 0 (qty - int have) in
            if need \<le> 0
            then explode_rows E po existing_counts rows
                   (created, skipped + qty, existing_codes, d)
            else (case explode_units E po ln prefix (nat need) (created, existing_codes, d) of
                    Inl e \<Rightarrow> Inl e
                  | Inr (created1, codes1, d1) \<Rightarrow>
                      explode_rows E po existing_counts rows (created1, skipped, codes1, d1))))"

definition existing_counts_of :: "uuid \<Rightarrow> db \<Rightarrow> uuid \<Rightarrow> nat" where
  "existing_counts_of po d lid =
     length (filter (\<lambda>i. ii_purchase_order_id i = Some po \<and> ii_po_line_id i = Some lid)
               (inventory_items d))"

definition existing_codes_of :: "uuid \<Rightarrow> db \<Rightarrow> string list" where
  "existing_codes_of po d =
     map ii_synergy_code (filter (\<lambda>i. ii_purchase_order_id i = Some po) (inventory_items d))"

text \<open>The lines of the purchase order, \<open>ORDER BY pl.id\<close>, with \<open>COALESCE(c.prefix, '')\<close>.\<close>

definition explode_select :: "uuid \<Rightarrow> db \<Rightarrow> (po_line \<times> string) list" where
  "explode_select po d =
     map (\<lambda>l. (l, case line_prefix d l of None \<Rightarrow> [] | Some p \<Rightarrow> p))
       (sort_key pl_id (filter (\<lambda>l. pl_purchase_order_id l = po) (po_lines d)))"

definition explode_state :: "nat \<Rightarrow> int \<Rightarrow> string" where
  "explode_state c s =
     (if 0 < c \<and> s = 0 then ''done'' else if 0 < c then ''partial'' else ''already'')"

definition explode_by_line :: "env \<Rightarrow> uuid \<Rightarrow> db \<Rightarrow> error + (explode_result \<times> db)" where
  "explode_by_line E po d =
     (case explode_rows E po (existing_counts_of po d) (explode_select po d)
             (0, 0, existing_codes_of po d, d) of
        Inl e \<Rightarrow> Inl e
      | Inr (c, s, codes, d1) \<Rightarrow>
          Inr (\<lparr>res_created = c, res_skipped = s, res_state = explode_state c s\<rparr>, d1))"

text \<open>A line that the explosion cannot resolve to a category and a prefix.\<close>

definition unresolved :: "po_line \<times> string \<Rightarrow> bool" where
  "unresolved r = (pl_category_guess (fst r) = None \<or> strip (snd r) = [])"

definition unresolved_qty :: "(po_line \<times> string) list \<Rightarrow> int" where
  "unresolved_qty rows = sum_list (map (\<lambda>r. line_qty (fst r)) (filter unresolved rows))"


text \<open>A result of the loop of the explosion with \<open>k\<close> more units counted as skipped.\<close>

definition add_skipped ::
  "int \<Rightarrow> error + (nat \<times> int \<times> string list \<times> db) \<Rightarrow> error + (nat \<times> int \<times> string list \<times> db)" where
  "add_skipped k r =
     (case r of Inl e \<Rightarrow> Inl e | Inr (c', s', codes', d') \<Rightarrow> Inr (c', s' + k, codes', d'))"


section \<open>Peek\<close>

text \<open>
  A call of a module-level name is resolved in the module's globals when the call is
  executed. The globals of \<open>fastapi/routes_synergy.py\<close> are its imports, its classes and
  its functions; of these only \<open>_get_true_max_seq\<close> takes a cursor and a prefix and
  returns a number.
\<close>

datatype global_value =
    SeqHelper "env \<Rightarrow> db \<Rightarrow> string \<Rightarrow> error + int"
  | OtherValue

definition routes_synergy_globals :: "(string \<times> global_value) list" where
  "routes_synergy_globals =
     [(''re'', OtherValue), (''json'', OtherValue), (''UUID'', OtherValue),
      (''Optional'', OtherValue), (''List'', OtherValue), (''Dict'', OtherValue),
      (''Any'', OtherValue), (''APIRouter'', OtherValue), (''HTTPException'', OtherValue),
      (''Query'', OtherValue), (''Body'', OtherValue), (''Response'', OtherValue),
      (''psycopg2'', OtherValue), (''BaseModel'', OtherValue), (''datetime'', OtherValue),
      (''db'', OtherValue), (''_uuid_list'', OtherValue), (''_row_val'', OtherValue),
      (''to_num'', OtherValue), (''_broadcast'', OtherValue), (''router'', OtherValue),
      (''fmt_synergy'', OtherValue), (''SynergyIdEvent'', OtherValue),
      (''log_synergy_event'', OtherValue), (''_get_next_synergy_code'', OtherValue),
      (''_get_true_max_seq'', SeqHelper get_true_max_seq),
      (''synergy_preview'', OtherValue), (''mint_synergy'', OtherValue),
      (''mint_stats'', OtherValue), (''explode_by_line'', OtherValue),
      (''ExplodeGroupBody'', OtherValue), (''explode_group'', OtherValue),
      (''prefix_peek'', OtherValue), (''prefix_reset'', OtherValue),
      (''prefix_take'', OtherValue), (''prefix_set'', OtherValue),
      (''synergy_id_overview'', OtherValue), (''synergy_id_events'', OtherValue)]"

definition call_seq_helper :: "string \<Rightarrow> env \<Rightarrow> db \<Rightarrow> string \<Rightarrow> error + int" where
  "call_seq_helper name E d prefix =
     (case map_of routes_synergy_globals name of
        None \<Rightarrow> Inl (NameError name)
      | Some OtherValue \<Rightarrow> Inl TypeError
      | Some (SeqHelper f) \<Rightarrow> f E d prefix)"

definition prefix_peek :: "env \<Rightarrow> string \<Rightarrow> db \<Rightarrow> error + (string \<times> db)" where
  "prefix_peek E prefix d =
     (case call_seq_helper ''_get_starting_seq_for_prefix'' E d prefix of
        Inl e \<Rightarrow> Inl e
      | Inr n \<Rightarrow> Inr (fmt_synergy prefix (n + 1), d))"


section \<open>Runs of the system\<close>


text \<open>
  Requests run in transactions of their own, at PostgreSQL's default isolation level:
  a statement sees what has been committed when it starts. A call of
  \<open>_get_next_synergy_code\<close> that overlaps with others is an open session between its
  locked read with the scan (\<open>Begin\<close>) and its upsert, audit insert and commit
  (\<open>Finish\<close>). \<open>SELECT ... FOR UPDATE\<close> locks the counter row it finds until the session
  ends; when it finds no row it locks nothing.
\<close>

record session =
  se_env :: env
  se_prefix :: string
  se_who :: mint_ctx
  se_next_seq :: int
  se_locked :: bool

definition lock_held :: "(nat \<times> session) list \<Rightarrow> string \<Rightarrow> bool" where
  "lock_held sessions prefix =
     list_ex (\<lambda>x. se_prefix (snd x) = prefix \<and> se_locked (snd x)) sessions"

text \<open>
  A run is a sequence of steps: a call of \<open>_get_next_synergy_code\<close> that runs alone in a
  transaction of its own (\<open>Call\<close>), the two halves of a call that overlaps with others
  (\<open>Begin\<close> and \<open>Finish\<close> of a numbered session), or any other committed change of the
  database (\<open>Write\<close>). The result lists, per call, the prefix and what the call returned;
  it is \<open>None\<close> when a step cannot happen at its place: because the statement would wait
  for a row lock that another open session holds, or because the step begins a session
  that is open or finishes one that is not.
\<close>

datatype step =
    Call env string mint_ctx
  | Begin nat env string mint_ctx
  | Finish nat
  | Write "db \<Rightarrow> db"

fun run ::
  "step list \<Rightarrow> (nat \<times> session) list \<Rightarrow> db \<Rightarrow> (string \<times> (error + string)) list option" where
  "run [] sessions d = Some []"
| "run (Call E prefix who # steps) sessions d =
     (if lock_held sessions prefix then None
      else map_option
             (\<lambda>out. (prefix, fst (db_txn (get_next_synergy_code E prefix who) d)) # out)
             (run steps sessions (snd (db_txn (get_next_synergy_code E prefix who) d))))"
| "run (Begin s E prefix who # steps) sessions d =
     (if lock_held sessions prefix \<or> list_ex (\<lambda>x. fst x = s) sessions then None
      else (case reserve_seq E (d\<lparr>txn_aborted := False\<rparr>) prefix of
              Inl e \<Rightarrow> map_option (\<lambda>out. (prefix, Inl e) # out) (run steps sessions d)
            | Inr next_seq \<Rightarrow>
                run steps
                  (sessions @ [(s, \<lparr>se_env = E, se_prefix = prefix, se_who = who,
                                     se_next_seq = next_seq,
                                     se_locked = (id_prefix_counters d prefix \<noteq> None)\<rparr>)])
                  d))"
| "run (Finish s # steps) sessions d =
     (case map_of sessions s of
        None \<Rightarrow> None
      | Some x \<Rightarrow>
          if lock_held (filter (\<lambda>y. fst y \<noteq> s) sessions) (se_prefix x) then None
          else map_option
                 (\<lambda>out. (se_prefix x,
                          fst (db_txn (advance_counter (se_env x) (se_prefix x) (se_who x)
                                         (se_next_seq x)) d)) # out)
                 (run steps (filter (\<lambda>y. fst y \<noteq> s) sessions)
                    (snd (db_txn (advance_counter (se_env x) (se_prefix x) (se_who x)
                                    (se_next_seq x)) d))))"
| "run (Write f # steps) sessions d = run steps sessions (f d)"

definition sys_run :: "step list \<Rightarrow> db \<Rightarrow> (string \<times> (error + string)) list option" where
  "sys_run steps d = run steps [] d"








text \<open>
  A prefix is fresh: it has no counter row and no line and no item carries a code that
  matches \<open>prefix-%\<close>, in any of the three columns.
\<close>

definition no_code_like :: "string \<Rightarrow> string option list \<Rightarrow> bool" where
  "no_code_like prefix col =
     list_all (\<lambda>sid. case sid of None \<Rightarrow> True | Some c \<Rightarrow> \<not> sql_like (prefix @ ''-%'') c) col"

definition fresh_prefix :: "db \<Rightarrow> string \<Rightarrow> bool" where
  "fresh_prefix d prefix =
     (id_prefix_counters d prefix = None
      \<and> no_code_like prefix (scanned_column InventoryItems d)
      \<and> no_code_like prefix (scanned_column PoLines d)
      \<and> no_code_like prefix (map (\<lambda>i. Some (ii_synergy_code i)) (inventory_items d)))"


section \<open>Concrete states\<close>

text \<open>No statement is rejected, the clock reads 1000, new items get no \<open>synergy_id\<close>.\<close>

definition env0 :: env where
  "env0 = \<lparr>fails = (\<lambda>s. False), now = 1000, sid_default = (\<lambda>c. None)\<rparr>"

text \<open>The audit insert is rejected, everything else works.\<close>

definition env_audit_down :: env where
  "env_audit_down = \<lparr>fails = (\<lambda>s. s = InsertEvent), now = 1000, sid_default = (\<lambda>c. None)\<rparr>"

text \<open>The counter store is down.\<close>

definition env_counter_down :: env where
  "env_counter_down =
     \<lparr>fails = (\<lambda>s. s = SelectCounter \<or> s = UpsertCounter), now = 1000,
      sid_default = (\<lambda>c. None)\<rparr>"

definition mk_line ::
  "uuid \<Rightarrow> uuid \<Rightarrow> nat \<Rightarrow> int \<Rightarrow> uuid option \<Rightarrow> string option \<Rightarrow> po_line" where
  "mk_line i po t q c sid =
     \<lparr>pl_id = i, pl_purchase_order_id = po, pl_created_at = Some t,
      pl_product_name_raw = None, pl_qty = Some q, pl_unit_cost = None, pl_msrp = None,
      pl_category_guess = c, pl_synergy_id = sid, pl_raw_json = None\<rparr>"

text \<open>An item whose code is also in the column \<open>synergy_id\<close>, where the scan reads.\<close>

definition mk_item :: "string \<Rightarrow> uuid \<Rightarrow> uuid \<Rightarrow> inventory_item" where
  "mk_item code po lid =
     \<lparr>ii_synergy_code = code, ii_synergy_id = Some code, ii_purchase_order_id = Some po,
      ii_po_line_id = Some lid, ii_category_id = Some 1, ii_cost_unit = 0, ii_msrp = 0,
      ii_status = ''INTAKE'', ii_specs = ''{}'', ii_tester_comment = None\<rparr>"

text \<open>
  A fresh prefix \<open>GEN\<close>: no counter row, no code; purchase order 7 has two lines of
  category 1, of quantity 2 and 3.
\<close>

definition db_gen :: db where
  "db_gen =
     \<lparr>id_prefix_counters = Map.empty, inventory_items = [],
      po_lines = [mk_line 1 7 100 2 (Some 1) None, mk_line 2 7 101 3 (Some 1) None],
      categories = [1 \<mapsto> Some ''GEN''], synergy_id_events = [], txn_aborted = False\<rparr>"

text \<open>The same purchase order with a third line, of quantity 4, that has no category.\<close>

definition db_gen_mixed :: db where
  "db_gen_mixed =
     db_gen\<lparr>po_lines := [mk_line 1 7 100 2 (Some 1) None, mk_line 2 7 101 3 (Some 1) None,
                          mk_line 3 7 102 4 None None]\<rparr>"

text \<open>
  Prefix \<open>LAP\<close> without a counter row; the codes \<open>LAP-00001\<close> to \<open>LAP-00007\<close> exist, four
  on items and three on lines.
\<close>

definition db_lap7 :: db where
  "db_lap7 =
     \<lparr>id_prefix_counters = Map.empty,
      inventory_items = [mk_item ''LAP-00001'' 3 11, mk_item ''LAP-00007'' 3 11,
                         mk_item ''LAP-00003'' 3 12, mk_item ''LAP-00005'' 4 13],
      po_lines = [mk_line 21 5 100 1 (Some 1) (Some ''LAP-00002''),
                  mk_line 22 5 101 1 (Some 1) (Some ''LAP-00006''),
                  mk_line 23 6 102 1 (Some 1) (Some ''LAP-00004'')],
      categories = [1 \<mapsto> Some ''LAP''], synergy_id_events = [], txn_aborted = False\<rparr>"

text \<open>Prefix \<open>LAP\<close> without a counter row; the highest code in use is \<open>LAP-00010\<close>.\<close>

definition db_lap10 :: db where
  "db_lap10 =
     \<lparr>id_prefix_counters = Map.empty,
      inventory_items = [mk_item ''LAP-00010'' 3 11],
      po_lines = [mk_line 21 5 100 1 (Some 1) (Some ''LAP-00004'')],
      categories = [1 \<mapsto> Some ''LAP''], synergy_id_events = [], txn_aborted = False\<rparr>"


text \<open>The state after one allocation for \<open>GEN\<close> in \<open>db_gen\<close>.\<close>

definition db_gen_taken :: db where
  "db_gen_taken =
     db_gen\<lparr>id_prefix_counters := [''GEN'' \<mapsto> Some 2],
            synergy_id_events := [mint_event ''GEN'' 1 ''GEN-00001'' no_ctx]\<rparr>"


text \<open>An item as the explosion inserts it when the table gives it no \<open>synergy_id\<close>.\<close>

definition mk_unit :: "string \<Rightarrow> uuid \<Rightarrow> uuid \<Rightarrow> inventory_item" where
  "mk_unit code po lid =
     \<lparr>ii_synergy_code = code, ii_synergy_id = None, ii_purchase_order_id = Some po,
      ii_po_line_id = Some lid, ii_category_id = Some 1, ii_cost_unit = 0, ii_msrp = 0,
      ii_status = ''INTAKE'', ii_specs = ''{}'', ii_tester_comment = None\<rparr>"

text \<open>
  Purchase order 5 with two single-unit lines of prefix \<open>LAP\<close>, not yet minted; and the
  state that mint and explosion make of it: the lines carry \<open>LAP-00001\<close> and \<open>LAP-00002\<close>,
  each item carries the code of its line, the counter is at 3.
\<close>

definition db_lap_new :: db where
  "db_lap_new =
     \<lparr>id_prefix_counters = Map.empty, inventory_items = [],
      po_lines = [mk_line 21 5 100 1 (Some 1) None, mk_line 22 5 101 1 (Some 1) None],
      categories = [1 \<mapsto> Some ''LAP''], synergy_id_events = [], txn_aborted = False\<rparr>"

definition db_lap_units :: db where
  "db_lap_units =
     \<lparr>id_prefix_counters = [''LAP'' \<mapsto> Some 3],
      inventory_items = [mk_unit ''LAP-00001'' 5 21, mk_unit ''LAP-00002'' 5 22],
      po_lines = [mk_line 21 5 100 1 (Some 1) (Some ''LAP-00001''),
                  mk_line 22 5 101 1 (Some 1) (Some ''LAP-00002'')],
      categories = [1 \<mapsto> Some ''LAP''],
      synergy_id_events = [mint_event ''LAP'' 1 ''LAP-00001'' no_ctx,
                           mint_event ''LAP'' 2 ''LAP-00002'' no_ctx],
      txn_aborted = False\<rparr>"


text \<open>
  Purchase order 7 again, stored in the other order: line 2 was created first and has
  quantity 2, line 1 was created after it and has quantity 3.
\<close>

definition db_gen_swapped :: db where
  "db_gen_swapped =
     db_gen\<lparr>po_lines := [mk_line 1 7 101 3 (Some 1) None, mk_line 2 7 100 2 (Some 1) None]\<rparr>"

section \<open>Formatting is injective; the widths differ\<close>

lemma length_zfill: "length (zfill w s) = max w (length s)"
  by (auto simp: zfill_def split: list.splits)

lemma dec_nonempty: "dec n \<noteq> []"
  by (subst dec.simps) simp

lemma dec_small: "n < 10 \<Longrightarrow> dec n = [digit_char n]"
  by (subst dec.simps) simp

lemma dec_large: "\<not> n < 10 \<Longrightarrow> dec n = dec (n div 10) @ [digit_char (n mod 10)]"
  by (subst dec.simps) simp

lemma dec_length_le: "0 < k \<Longrightarrow> (length (dec n) \<le> k) = (n < 10 ^ k)"
proof (induction k arbitrary: n)
  case 0
  then show ?case by simp
next
  case (Suc k)
  show ?case
  proof (cases "n < 10")
    case True
    have "(1::nat) \<le> 10 ^ k" by simp
    then have "n < 10 * 10 ^ k"
      using True by linarith
    then have "n < 10 ^ Suc k" by simp
    then show ?thesis using True by (simp add: dec_small)
  next
    case False
    show ?thesis
    proof (cases "k = 0")
      case True
      have "0 < length (dec (n div 10))"
        using dec_nonempty [of "n div 10"] by simp
      then show ?thesis using True False by (simp add: dec_large)
    next
      case k: False
      then have "(length (dec (n div 10)) \<le> k) = (n div 10 < 10 ^ k)"
        using Suc.IH by simp
      moreover have "(n div 10 < 10 ^ k) = (n < 10 ^ Suc k)"
        by (simp add: div_less_iff_less_mult mult.commute)
      ultimately show ?thesis using False
        by (simp add: dec_large)
    qed
  qed
qed


lemma str_int_short: "(length (str_int s) < 5) = (- 1000 < s \<and> s < 10000)"
proof (cases "s < 0")
  case True
  have "(length (dec (nat (- s))) \<le> 3) = (nat (- s) < 10 ^ 3)"
    by (rule dec_length_le) simp
  with True show ?thesis by (simp add: str_int_def) linarith
next
  case False
  have "(length (dec (nat s)) \<le> 4) = (nat s < 10 ^ 4)"
    by (rule dec_length_le) simp
  with False show ?thesis by (simp add: str_int_def) linarith
qed

lemma zfill_4_5: "(zfill 5 s \<noteq> zfill 4 s) = (length s < 5)"
proof (cases "length s < 5")
  case True
  have "length (zfill 5 s) \<noteq> length (zfill 4 s)"
    using True by (simp add: length_zfill)
  then have "zfill 5 s \<noteq> zfill 4 s" by auto
  with True show ?thesis by simp
next
  case False
  then show ?thesis by (simp add: zfill_def)
qed

lemma fmt_differ_iff:
  "(fmt_synergy prefix seq \<noteq> fmt_synergy_main prefix seq) = (- 1000 < seq \<and> seq < 10000)"
  by (simp add: fmt_synergy_def fmt_synergy_main_def zfill_4_5 str_int_short)















section \<open>Statements and transactions\<close>

lemma cur_execute_None: "(cur_execute E s d = None) = (\<not> txn_aborted d \<and> \<not> fails E s)"
  by (simp add: cur_execute_def)

lemma begin_same: "\<not> txn_aborted d \<Longrightarrow> d\<lparr>txn_aborted := False\<rparr> = d"
  by (cases d) simp


lemma db_txn_commit:
  "\<not> txn_aborted d \<Longrightarrow> body d = Inr (r, d1) \<Longrightarrow> \<not> txn_aborted d1
     \<Longrightarrow> db_txn body d = (Inr r, d1)"
  by (simp add: db_txn_def begin_same)

lemma db_txn_raise:
  "\<not> txn_aborted d \<Longrightarrow> body d = Inl e \<Longrightarrow> db_txn body d = (Inl e, d)"
  by (simp add: db_txn_def begin_same)

section \<open>Allocation: what a call returns and writes\<close>

lemma reserve_Inr:
  "reserve_seq E d prefix = Inr n \<Longrightarrow> \<not> txn_aborted d \<and> \<not> fails E SelectCounter"
  by (auto simp: reserve_seq_def cur_execute_def split: if_splits)

lemma advance_Inr:
  assumes "advance_counter E prefix who n d = Inr (code, d')"
  shows "code = fmt_synergy prefix n
           \<and> id_prefix_counters d' = (id_prefix_counters d)(prefix \<mapsto> Some (n + 1))
           \<and> inventory_items d' = inventory_items d \<and> po_lines d' = po_lines d
           \<and> categories d' = categories d
           \<and> txn_aborted d' = fails E InsertEvent \<and> \<not> txn_aborted d
           \<and> \<not> fails E UpsertCounter"
  using assms
  by (auto simp: advance_counter_def Let_def upsert_counter_def log_synergy_event_def
      cur_execute_def split: sum.splits if_splits)

lemma alloc_split:
  assumes "get_next_synergy_code E prefix who d = Inr (code, d')"
  shows "\<exists>n. reserve_seq E d prefix = Inr n \<and> advance_counter E prefix who n d = Inr (code, d')"
  using assms by (auto simp: get_next_synergy_code_def split: sum.splits)

lemma alloc_Inr:
  assumes "get_next_synergy_code E prefix who d = Inr (code, d')"
  shows "\<exists>n. reserve_seq E d prefix = Inr n \<and> code = fmt_synergy prefix n
           \<and> id_prefix_counters d' = (id_prefix_counters d)(prefix \<mapsto> Some (n + 1))
           \<and> inventory_items d' = inventory_items d \<and> po_lines d' = po_lines d
           \<and> categories d' = categories d
           \<and> txn_aborted d' = fails E InsertEvent \<and> \<not> txn_aborted d"
proof -
  from alloc_split [OF assms] obtain n where r: "reserve_seq E d prefix = Inr n"
    and a: "advance_counter E prefix who n d = Inr (code, d')" by blast
  from advance_Inr [OF a] r show ?thesis by blast
qed

lemma reserve_seq_row:
  "id_prefix_counters d prefix = Some (Some k) \<Longrightarrow> reserve_seq E d prefix = Inr n \<Longrightarrow> n = k"
  by (auto simp: reserve_seq_def split: option.splits)

text \<open>An allocation whose statements are all accepted.\<close>

lemma alloc_accepted:
  assumes "\<not> fails E UpsertCounter" and "\<not> fails E InsertEvent"
    and "reserve_seq E d prefix = Inr n"
  shows "get_next_synergy_code E prefix who d
           = Inr (fmt_synergy prefix n,
                  d\<lparr>id_prefix_counters := (id_prefix_counters d)(prefix \<mapsto> Some (n + 1)),
                    synergy_id_events := synergy_id_events d
                       @ [mint_event prefix n (fmt_synergy prefix n) who]\<rparr>)"
  using assms reserve_Inr [OF assms(3)]
  by (simp add: get_next_synergy_code_def advance_counter_def Let_def upsert_counter_def
      log_synergy_event_def cur_execute_def)

text \<open>An allocation whose audit insert is rejected.\<close>

lemma alloc_audit_rejected:
  assumes "\<not> fails E UpsertCounter" and "fails E InsertEvent"
    and "reserve_seq E d prefix = Inr n"
  shows "get_next_synergy_code E prefix who d
           = Inr (fmt_synergy prefix n,
                  d\<lparr>id_prefix_counters := (id_prefix_counters d)(prefix \<mapsto> Some (n + 1)),
                    txn_aborted := True\<rparr>)"
  using assms reserve_Inr [OF assms(3)]
  by (simp add: get_next_synergy_code_def advance_counter_def Let_def upsert_counter_def
      log_synergy_event_def cur_execute_def)

section \<open>The scan bounds every sequence number it reads\<close>

lemma column_seqs_Cons:
  "column_seqs P (sid # col) =
     (case row_seq P sid of Inr (Some v) \<Rightarrow> v # column_seqs P col | _ \<Rightarrow> column_seqs P col)"
  by (simp add: column_seqs_def split: sum.splits option.splits)

lemma column_seqs_Nil: "column_seqs P [] = []"
  by (simp add: column_seqs_def)

lemma sql_max_bound:
  "sql_max P col = Inr m \<Longrightarrow> v \<in> set (column_seqs P col) \<Longrightarrow> \<exists>b. m = Some b \<and> v \<le> b"
proof (induction col arbitrary: m)
  case Nil
  then show ?case by (simp add: column_seqs_Nil)
next
  case (Cons sid col)
  from Cons.prems(1) obtain r m' where r: "row_seq P sid = Inr r" and m': "sql_max P col = Inr m'"
    and m: "m = (case r of None \<Rightarrow> m'
                 | Some a \<Rightarrow> (case m' of None \<Rightarrow> Some a | Some b \<Rightarrow> Some (max a b)))"
    by (auto split: sum.splits)
  show ?case
  proof (cases r)
    case None
    with Cons.prems(2) r have "v \<in> set (column_seqs P col)"
      by (simp add: column_seqs_Cons)
    with Cons.IH [OF m'] None m show ?thesis by simp
  next
    case (Some a)
    with Cons.prems(2) r have "v = a \<or> v \<in> set (column_seqs P col)"
      by (simp add: column_seqs_Cons)
    then show ?thesis
    proof
      assume "v = a"
      with Some m show ?thesis by (cases m') auto
    next
      assume "v \<in> set (column_seqs P col)"
      from Cons.IH [OF m' this] obtain b where "m' = Some b" "v \<le> b" by blast
      with Some m show ?thesis by auto
    qed
  qed
qed

lemma max_seq_query_bound:
  "max_seq_query P col = Inr M \<Longrightarrow> v \<in> set (column_seqs P col) \<Longrightarrow> v \<le> M"
  by (auto simp: max_seq_query_def split: sum.splits option.splits dest: sql_max_bound)

lemma scan_tables_bound:
  "scan_tables E d P ts acc = Inr M \<Longrightarrow>
     acc \<le> M \<and> (\<forall>t\<in>set ts. \<forall>v\<in>set (column_seqs P (scanned_column t d)). v \<le> M)"
proof (induction ts arbitrary: acc)
  case Nil
  then show ?case by simp
next
  case (Cons t ts)
  from Cons.prems obtain m where m: "max_seq_query P (scanned_column t d) = Inr m"
    and rest: "scan_tables E d P ts (max acc m) = Inr M"
    by (auto split: option.splits sum.splits)
  from Cons.IH [OF rest] have ih: "max acc m \<le> M"
    "\<forall>t\<in>set ts. \<forall>v\<in>set (column_seqs P (scanned_column t d)). v \<le> M" by auto
  have "\<forall>v\<in>set (column_seqs P (scanned_column t d)). v \<le> M"
    using max_seq_query_bound [OF m] ih(1) by fastforce
  with ih show ?case by auto
qed

lemma true_max_bound:
  assumes "get_true_max_seq E d P = Inr M"
  shows "0 \<le> M" and "\<forall>v\<in>set (seqs_present d P). v \<le> M"
  using scan_tables_bound [OF assms [unfolded get_true_max_seq_def]]
  by (auto simp: seqs_present_def)

lemma true_max_running:
  "get_true_max_seq E d P = Inr M \<Longrightarrow> \<not> txn_aborted d"
  by (auto simp: get_true_max_seq_def cur_execute_def split: if_splits)



lemma line_seqs_cong:
  "po_lines d' = po_lines d \<Longrightarrow> line_seqs d' P = line_seqs d P"
  by (simp add: line_seqs_def scanned_column_def)

lemma scan_reaches_items_cong:
  "inventory_items d' = inventory_items d \<Longrightarrow> po_lines d' = po_lines d
     \<Longrightarrow> scan_reaches_items d' P = scan_reaches_items d P"
  by (simp add: scan_reaches_items_def item_code_seqs_def seqs_present_def scanned_column_def)













section \<open>The loops of the explosion\<close>

lemma unit_code_db:
  assumes "unit_code E ln prefix (codes, d) = Inr (code, codes', d')"
  shows "inventory_items d' = inventory_items d \<and> po_lines d' = po_lines d
           \<and> categories d' = categories d"
  using assms
  by (auto simp: unit_code_def split: option.splits if_splits sum.splits dest: alloc_Inr)

lemma insert_item_db:
  assumes "insert_inventory_item it d = Inr d'"
  shows "inventory_items d' = inventory_items d @ [it] \<and> po_lines d' = po_lines d
           \<and> categories d' = categories d"
  using assms by (auto simp: insert_inventory_item_def split: if_splits)

lemma counts_append:
  "inventory_items d' = inventory_items d @ [new_item E po ln code] \<Longrightarrow>
     existing_counts_of po d' lid = existing_counts_of po d lid + (if lid = pl_id ln then 1 else 0)"
  by (simp add: existing_counts_of_def new_item_def)

lemma counts_same:
  "inventory_items d' = inventory_items d \<Longrightarrow>
     existing_counts_of po d' lid = existing_counts_of po d lid"
  by (simp add: existing_counts_of_def)

lemma explode_units_inv:
  "explode_units E po ln prefix n (c, codes, d) = Inr (c', codes', d') \<Longrightarrow>
     po_lines d' = po_lines d \<and> categories d' = categories d \<and> c' = c + n
     \<and> (\<forall>lid. existing_counts_of po d' lid
                 = existing_counts_of po d lid + (if lid = pl_id ln then n else 0))"
proof (induction n arbitrary: c codes d)
  case 0
  then show ?case by simp
next
  case (Suc n)
  from Suc.prems obtain code codes1 d1 d2 where
    u: "unit_code E ln prefix (codes, d) = Inr (code, codes1, d1)"
    and i: "insert_inventory_item (new_item E po ln code) d1 = Inr d2"
    and r: "explode_units E po ln prefix n (c + 1, codes1, d2) = Inr (c', codes', d')"
    by (auto split: sum.splits)
  note a = unit_code_db [OF u]
  note b = insert_item_db [OF i]
  note ih = Suc.IH [OF r]
  have cnt: "\<And>lid. existing_counts_of po d2 lid
               = existing_counts_of po d lid + (if lid = pl_id ln then 1 else 0)"
    using counts_append [of d2 d1 E po ln code] counts_same [of d1 d po] a b by simp
  show ?case using ih a b cnt by simp
qed

lemma explode_rows_inv:
  "explode_rows E po counts rows (c, s, codes, d) = Inr (c', s', codes', d') \<Longrightarrow>
   \<forall>lid. counts lid \<le> existing_counts_of po d lid \<Longrightarrow>
     po_lines d' = po_lines d \<and> categories d' = categories d
     \<and> (\<forall>lid. existing_counts_of po d lid \<le> existing_counts_of po d' lid)
     \<and> (\<forall>row\<in>set rows. unresolved row
            \<or> line_qty (fst row) \<le> int (existing_counts_of po d' (pl_id (fst row))))"
proof (induction rows arbitrary: c s codes d)
  case Nil
  then show ?case by simp
next
  case (Cons row rows)
  obtain ln p where row: "row = (ln, p)" by (cases row) auto
  show ?case
  proof (cases "unresolved (ln, p)")
    case True
    with Cons.prems(1) row
    have "explode_rows E po counts rows (c, s + line_qty ln, codes, d) = Inr (c', s', codes', d')"
      by (simp add: unresolved_def Let_def)
    from Cons.IH [OF this Cons.prems(2)] True row show ?thesis by simp
  next
    case False
    then have res: "pl_category_guess ln \<noteq> None" "strip p \<noteq> []"
      by (simp_all add: unresolved_def)
    show ?thesis
    proof (cases "line_qty ln \<le> int (counts (pl_id ln))")
      case True
      with Cons.prems(1) row res
      have "explode_rows E po counts rows (c, s + line_qty ln, codes, d) = Inr (c', s', codes', d')"
        by (simp add: Let_def)
      note ih = Cons.IH [OF this Cons.prems(2)]
      have "line_qty ln \<le> int (existing_counts_of po d' (pl_id ln))"
      proof -
        have "counts (pl_id ln) \<le> existing_counts_of po d (pl_id ln)"
          using Cons.prems(2) by simp
        moreover have "existing_counts_of po d (pl_id ln) \<le> existing_counts_of po d' (pl_id ln)"
          using ih by simp
        ultimately show ?thesis using True by linarith
      qed
      with ih row show ?thesis by simp
    next
      case need: False
      define n where "n = nat (line_qty ln - int (counts (pl_id ln)))"
      from Cons.prems(1) row res need obtain c1 codes1 d1 where
        u: "explode_units E po ln (strip p) n (c, codes, d) = Inr (c1, codes1, d1)"
        and r: "explode_rows E po counts rows (c1, s, codes1, d1) = Inr (c', s', codes', d')"
        by (auto simp: Let_def n_def max_def split: sum.splits if_splits)
      note a = explode_units_inv [OF u]
      have mono1: "\<forall>lid. existing_counts_of po d lid \<le> existing_counts_of po d1 lid"
        using a by simp
      have pre1: "\<forall>lid. counts lid \<le> existing_counts_of po d1 lid"
      proof
        fix lid
        have "counts lid \<le> existing_counts_of po d lid"
          using Cons.prems(2) by simp
        also have "\<dots> \<le> existing_counts_of po d1 lid"
          using mono1 by simp
        finally show "counts lid \<le> existing_counts_of po d1 lid" .
      qed
      note ih = Cons.IH [OF r pre1]
      have here: "existing_counts_of po d1 (pl_id ln) = existing_counts_of po d (pl_id ln) + n"
        using a by simp
      have "line_qty ln \<le> int (existing_counts_of po d' (pl_id ln))"
      proof -
        have "counts (pl_id ln) \<le> existing_counts_of po d (pl_id ln)"
          using Cons.prems(2) by simp
        moreover have "existing_counts_of po d1 (pl_id ln) \<le> existing_counts_of po d' (pl_id ln)"
          using ih by simp
        ultimately show ?thesis using here need by (simp add: n_def)
      qed
      moreover have "\<forall>lid. existing_counts_of po d lid \<le> existing_counts_of po d' lid"
      proof
        fix lid
        have "existing_counts_of po d lid \<le> existing_counts_of po d1 lid"
          using mono1 by simp
        also have "\<dots> \<le> existing_counts_of po d' lid"
          using ih by simp
        finally show "existing_counts_of po d lid \<le> existing_counts_of po d' lid" .
      qed
      moreover have "po_lines d' = po_lines d" "categories d' = categories d"
        using ih a by simp_all
      moreover have "\<forall>r\<in>set rows. unresolved r
            \<or> line_qty (fst r) \<le> int (existing_counts_of po d' (pl_id (fst r)))"
        using ih by simp
      ultimately show ?thesis using row by simp
    qed
  qed
qed

lemma explode_rows_skip_all:
  "\<forall>row\<in>set rows. unresolved row \<or> line_qty (fst row) \<le> int (counts (pl_id (fst row))) \<Longrightarrow>
   explode_rows E po counts rows (c, s, codes, d)
     = Inr (c, s + sum_list (map (\<lambda>r. line_qty (fst r)) rows), codes, d)"
proof (induction rows arbitrary: s)
  case Nil
  then show ?case by simp
next
  case (Cons row rows)
  obtain ln p where row: "row = (ln, p)" by (cases row) auto
  from Cons.prems have rest:
    "\<forall>row\<in>set rows. unresolved row \<or> line_qty (fst row) \<le> int (counts (pl_id (fst row)))"
    by simp
  from Cons.prems row
  have "pl_category_guess ln = None \<or> strip p = [] \<or> line_qty ln \<le> int (counts (pl_id ln))"
    by (auto simp: unresolved_def)
  then have "explode_rows E po counts ((ln, p) # rows) (c, s, codes, d)
               = explode_rows E po counts rows (c, s + line_qty ln, codes, d)"
    by (auto simp: Let_def)
  with Cons.IH [OF rest, of "s + line_qty ln"] row show ?case
    by (simp add: add.assoc)
qed

lemma line_prefix_cong: "categories d' = categories d \<Longrightarrow> line_prefix d' = line_prefix d"
proof (intro ext)
  fix l
  assume "categories d' = categories d"
  then show "line_prefix d' l = line_prefix d l"
    by (cases "pl_category_guess l") (simp_all add: line_prefix_def)
qed

lemma explode_select_cong:
  assumes "po_lines d' = po_lines d" and "categories d' = categories d"
  shows "explode_select po d' = explode_select po d"
  using assms(1) line_prefix_cong [OF assms(2)] by (simp add: explode_select_def)

lemma explode_idem:
  assumes "explode_by_line E po d = Inr (r, d1)"
  shows "explode_by_line E' po d1
           = Inr (\<lparr>res_created = 0,
                   res_skipped = sum_list (map (\<lambda>row. line_qty (fst row)) (explode_select po d)),
                   res_state = ''already''\<rparr>, d1)"
proof -
  from assms obtain c s codes where
    run: "explode_rows E po (existing_counts_of po d) (explode_select po d)
            (0, 0, existing_codes_of po d, d) = Inr (c, s, codes, d1)"
    by (auto simp: explode_by_line_def split: sum.splits)
  have inv: "po_lines d1 = po_lines d" "categories d1 = categories d"
    "\<forall>row\<in>set (explode_select po d). unresolved row
        \<or> line_qty (fst row) \<le> int (existing_counts_of po d1 (pl_id (fst row)))"
    using explode_rows_inv [OF run] by simp_all
  have sel: "explode_select po d1 = explode_select po d"
    using inv(1,2) by (rule explode_select_cong)
  have "explode_rows E' po (existing_counts_of po d1) (explode_select po d)
          (0, 0, existing_codes_of po d1, d1)
        = Inr (0, 0 + sum_list (map (\<lambda>r. line_qty (fst r)) (explode_select po d)),
               existing_codes_of po d1, d1)"
    using inv(3) by (rule explode_rows_skip_all)
  then show ?thesis
    by (simp add: explode_by_line_def sel explode_state_def)
qed

lemma explode_rows_skip_step:
  "pl_category_guess ln = None \<or> strip p = [] \<or> line_qty ln \<le> int (counts (pl_id ln)) \<Longrightarrow>
   explode_rows E po counts ((ln, p) # rows) (c, s, codes, d)
     = explode_rows E po counts rows (c, s + line_qty ln, codes, d)"
  by (auto simp: Let_def)

lemma explode_rows_units_step:
  "pl_category_guess ln \<noteq> None \<Longrightarrow> strip p \<noteq> [] \<Longrightarrow>
   \<not> line_qty ln \<le> int (counts (pl_id ln)) \<Longrightarrow>
   explode_rows E po counts ((ln, p) # rows) (c, s, codes, d)
     = (case explode_units E po ln (strip p) (nat (line_qty ln - int (counts (pl_id ln))))
               (c, codes, d) of
          Inl e \<Rightarrow> Inl e
        | Inr (c1, codes1, d1) \<Rightarrow> explode_rows E po counts rows (c1, s, codes1, d1))"
  by (auto simp: Let_def max_def)

lemma add_skipped_simps:
  "add_skipped k (Inl e) = Inl e"
  "add_skipped k (Inr (c', s', codes', d')) = Inr (c', s' + k, codes', d')"
  by (simp_all add: add_skipped_def)

lemma add_skipped_add: "add_skipped a (add_skipped b r) = add_skipped (b + a) r"
  by (cases r) (auto simp: add_skipped_def)

lemma explode_rows_shift':
  "explode_rows E po counts rows (c, s + k, codes, d)
     = add_skipped k (explode_rows E po counts rows (c, s, codes, d))"
proof (induction rows arbitrary: c s codes d)
  case Nil
  then show ?case by (simp add: add_skipped_simps)
next
  case (Cons row rows)
  obtain ln p where row: "row = (ln, p)" by (cases row) auto
  have "explode_rows E po counts ((ln, p) # rows) (c, s + k, codes, d)
          = add_skipped k (explode_rows E po counts ((ln, p) # rows) (c, s, codes, d))"
  proof (cases "pl_category_guess ln = None \<or> strip p = []
                 \<or> line_qty ln \<le> int (counts (pl_id ln))")
    case True
    have sw: "s + k + line_qty ln = s + line_qty ln + k" by simp
    show ?thesis
      using Cons.IH [of c "s + line_qty ln" codes d]
      by (simp only: explode_rows_skip_step [where counts = counts, OF True] sw)
  next
    case False
    then have res: "pl_category_guess ln \<noteq> None" "strip p \<noteq> []"
      "\<not> line_qty ln \<le> int (counts (pl_id ln))" by simp_all
    show ?thesis
    proof (cases "explode_units E po ln (strip p)
                    (nat (line_qty ln - int (counts (pl_id ln)))) (c, codes, d)")
      case (Inl e)
      then show ?thesis
        by (simp add: explode_rows_units_step [where counts = counts, OF res] add_skipped_simps
            del: explode_rows.simps)
    next
      case (Inr r)
      obtain c1 codes1 d1 where r: "r = (c1, codes1, d1)" by (cases r) auto
      show ?thesis using Inr r Cons.IH [of c1 s codes1 d1]
        by (simp add: explode_rows_units_step [where counts = counts, OF res] del: explode_rows.simps)
    qed
  qed
  then show ?case by (simp only: row)
qed

lemma explode_rows_filter':
  "explode_rows E po counts rows (c, s, codes, d)
     = add_skipped (unresolved_qty rows)
         (explode_rows E po counts (filter (\<lambda>r. \<not> unresolved r) rows) (c, s, codes, d))"
proof (induction rows arbitrary: c s codes d)
  case Nil
  then show ?case by (simp add: unresolved_qty_def add_skipped_simps)
next
  case (Cons row rows)
  obtain ln p where row: "row = (ln, p)" by (cases row) auto
  have "explode_rows E po counts ((ln, p) # rows) (c, s, codes, d)
     = add_skipped (unresolved_qty ((ln, p) # rows))
         (explode_rows E po counts (filter (\<lambda>r. \<not> unresolved r) ((ln, p) # rows))
            (c, s, codes, d))"
  proof (cases "unresolved (ln, p)")
    case True
    then have sk: "pl_category_guess ln = None \<or> strip p = []
                     \<or> line_qty ln \<le> int (counts (pl_id ln))"
      by (auto simp: unresolved_def)
    have q: "unresolved_qty ((ln, p) # rows) = line_qty ln + unresolved_qty rows"
      using True by (simp add: unresolved_qty_def)
    have f: "filter (\<lambda>r. \<not> unresolved r) ((ln, p) # rows) = filter (\<lambda>r. \<not> unresolved r) rows"
      using True by simp
    have "explode_rows E po counts ((ln, p) # rows) (c, s, codes, d)
            = explode_rows E po counts rows (c, s + line_qty ln, codes, d)"
      by (rule explode_rows_skip_step [where counts = counts, OF sk])
    also have "\<dots> = add_skipped (line_qty ln) (explode_rows E po counts rows (c, s, codes, d))"
      by (rule explode_rows_shift')
    also have "\<dots> = add_skipped (line_qty ln) (add_skipped (unresolved_qty rows)
                 (explode_rows E po counts (filter (\<lambda>r. \<not> unresolved r) rows) (c, s, codes, d)))"
      using Cons.IH [of c s codes d] by simp
    also have "\<dots> = add_skipped (unresolved_qty rows + line_qty ln)
                 (explode_rows E po counts (filter (\<lambda>r. \<not> unresolved r) rows) (c, s, codes, d))"
      by (rule add_skipped_add)
    finally show ?thesis by (simp only: f q add.commute)
  next
    case False
    then have res: "pl_category_guess ln \<noteq> None" "strip p \<noteq> []"
      by (simp_all add: unresolved_def)
    have q: "unresolved_qty ((ln, p) # rows) = unresolved_qty rows"
      using False by (simp add: unresolved_qty_def)
    have f: "filter (\<lambda>r. \<not> unresolved r) ((ln, p) # rows)
               = (ln, p) # filter (\<lambda>r. \<not> unresolved r) rows"
      using False by simp
    show ?thesis
    proof (cases "line_qty ln \<le> int (counts (pl_id ln))")
      case True
      then have sk: "pl_category_guess ln = None \<or> strip p = []
                     \<or> line_qty ln \<le> int (counts (pl_id ln))" by simp
      show ?thesis using Cons.IH [of c "s + line_qty ln" codes d]
        by (simp only: f q explode_rows_skip_step [where counts = counts, OF sk])
    next
      case need: False
      show ?thesis
      proof (cases "explode_units E po ln (strip p)
                      (nat (line_qty ln - int (counts (pl_id ln)))) (c, codes, d)")
        case (Inl e)
        then show ?thesis
          by (simp only: f q explode_rows_units_step [where counts = counts, OF res need])
             (simp add: add_skipped_simps)
      next
        case (Inr r)
        obtain c1 codes1 d1 where r: "r = (c1, codes1, d1)" by (cases r) auto
        show ?thesis using Inr r Cons.IH [of c1 s codes1 d1]
          by (simp only: f q explode_rows_units_step [where counts = counts, OF res need]) simp
      qed
    qed
  qed
  then show ?case by (simp only: row)
qed


section \<open>Requests never lower a counter\<close>
















section \<open>Runs without overlap: codes stay distinct while no counter is lowered\<close>






section \<open>Runs with overlap: the row lock keeps the codes distinct\<close>















section \<open>A fresh prefix and the two lines of the worked example\<close>

lemma sql_max_none: "no_code_like P col \<Longrightarrow> sql_max P col = Inr None"
proof (induction col)
  case Nil
  show ?case by simp
next
  case (Cons sid col)
  then have "row_seq P sid = Inr None"
    by (auto simp: no_code_like_def row_seq_def split: option.splits)
  moreover have "sql_max P col = Inr None" using Cons by (simp add: no_code_like_def)
  ultimately show ?case by simp
qed

lemma fresh_scan:
  assumes "fresh_prefix d P" and "\<not> txn_aborted d" and "\<forall>s. \<not> fails E s"
  shows "get_true_max_seq E d P = Inr 0"
  using assms
  by (simp add: get_true_max_seq_def cur_execute_def max_seq_query_def sql_max_none
      fresh_prefix_def)

lemma fresh_reserve:
  assumes "fresh_prefix d P" and "\<not> txn_aborted d" and "\<forall>s. \<not> fails E s"
  shows "reserve_seq E d P = Inr 1"
  using fresh_scan [OF assms] assms
  by (simp add: reserve_seq_def cur_execute_def fresh_prefix_def)

lemma row_reserve:
  assumes "id_prefix_counters d P = Some (Some k)" and "\<not> txn_aborted d"
    and "\<forall>s. \<not> fails E s"
  shows "reserve_seq E d P = Inr k"
  using assms by (simp add: reserve_seq_def cur_execute_def)

lemma fresh_code_unused:
  assumes "fresh_prefix d P" and "sql_like (P @ ''-%'') c"
  shows "c \<notin> set (map ii_synergy_code (inventory_items d))"
  using assms by (auto simp: fresh_prefix_def no_code_like_def list_all_iff)

lemma order_two:
  assumes "created_or t a < created_or t b
             \<or> (created_or t a = created_or t b \<and> pl_id a < pl_id b)"
  shows "order_created_id t [a, b] = [a, b]" and "order_created_id t [b, a] = [a, b]"
  using assms by (auto simp: order_created_id_def)

lemma sort_id_two:
  assumes "pl_id a < pl_id b"
  shows "sort_key pl_id [a, b] = [a, b]" and "sort_key pl_id [b, a] = [a, b]"
  using assms by auto

lemma new_item_fields:
  "ii_synergy_code (new_item E po ln code) = code"
  "ii_po_line_id (new_item E po ln code) = Some (pl_id ln)"
  "ii_purchase_order_id (new_item E po ln code) = Some po"
  by (simp_all add: new_item_def)

text \<open>One unit of the explosion that takes the line's pre-minted code.\<close>

lemma unit_pre_minted:
  assumes "pl_synergy_id ln = Some pre" and "pre \<noteq> []" and "pre \<notin> set codes"
    and "\<not> txn_aborted d" and "pre \<notin> set (map ii_synergy_code (inventory_items d))"
  shows "explode_units E po ln P (Suc n) (c, codes, d)
           = explode_units E po ln P n
               (c + 1, pre # codes,
                d\<lparr>inventory_items := inventory_items d @ [new_item E po ln pre]\<rparr>)"
  using assms by (simp add: unit_code_def insert_inventory_item_def new_item_fields)

text \<open>One unit of the explosion that takes a fresh code from the counter row.\<close>

lemma unit_allocated:
  assumes "\<forall>s. \<not> fails E s" and "\<not> txn_aborted d"
    and "id_prefix_counters d P = Some (Some k)"
    and "pl_synergy_id ln = Some pre" and "pre \<in> set codes"
    and "fmt_synergy P k \<notin> set (map ii_synergy_code (inventory_items d))"
  shows "explode_units E po ln P (Suc n) (c, codes, d)
           = explode_units E po ln P n
               (c + 1, codes,
                d\<lparr>id_prefix_counters := (id_prefix_counters d)(P \<mapsto> Some (k + 1)),
                  synergy_id_events := synergy_id_events d
                     @ [mint_event P k (fmt_synergy P k) no_ctx],
                  inventory_items := inventory_items d @ [new_item E po ln (fmt_synergy P k)]\<rparr>)"
proof -
  have r: "reserve_seq E d P = Inr k" using assms(3,2,1) by (rule row_reserve)
  show ?thesis
    using assms alloc_accepted [OF _ _ r, of no_ctx]
    by (simp add: unit_code_def insert_inventory_item_def new_item_fields)
qed

lemma gen_codes:
  "fmt_synergy ''GEN'' 1 = ''GEN-00001''"
  "fmt_synergy ''GEN'' 2 = ''GEN-00002''"
  "fmt_synergy ''GEN'' 3 = ''GEN-00003''"
  "fmt_synergy ''GEN'' 4 = ''GEN-00004''"
  "fmt_synergy ''GEN'' 5 = ''GEN-00005''"
  by code_simp+

lemma gen_like:
  "sql_like (''GEN'' @ ''-%'') ''GEN-00001''"
  "sql_like (''GEN'' @ ''-%'') ''GEN-00002''"
  "sql_like (''GEN'' @ ''-%'') ''GEN-00003''"
  "sql_like (''GEN'' @ ''-%'') ''GEN-00004''"
  "sql_like (''GEN'' @ ''-%'') ''GEN-00005''"
  by code_simp+

lemma gen_preview_codes:
  "preview_codes ''GEN'' 1 2 = [''GEN-00001'', ''GEN-00002'']"
  "preview_codes ''GEN'' 3 3 = [''GEN-00003'', ''GEN-00004'', ''GEN-00005'']"
  by code_simp+

lemma strip_gen: "strip ''GEN'' = ''GEN''" "or_empty_strip (Some ''GEN'') = ''GEN''"
  by code_simp+

lemma fresh_gen_unused:
  assumes "fresh_prefix d ''GEN''"
  shows "''GEN-00001'' \<notin> ii_synergy_code ` set (inventory_items d)"
    "''GEN-00002'' \<notin> ii_synergy_code ` set (inventory_items d)"
    "''GEN-00003'' \<notin> ii_synergy_code ` set (inventory_items d)"
    "''GEN-00004'' \<notin> ii_synergy_code ` set (inventory_items d)"
    "''GEN-00005'' \<notin> ii_synergy_code ` set (inventory_items d)"
  using fresh_code_unused [OF assms gen_like(1)] fresh_code_unused [OF assms gen_like(2)]
    fresh_code_unused [OF assms gen_like(3)] fresh_code_unused [OF assms gen_like(4)]
    fresh_code_unused [OF assms gen_like(5)]
  by simp_all

text \<open>The preview of two lines of a fresh prefix \<open>GEN\<close>, of quantity 2 and 3.\<close>

lemma preview_two:
  assumes "\<forall>s. \<not> fails E s" and "\<not> txn_aborted d" and "fresh_prefix d ''GEN''"
    and "pl_qty l1 = Some 2" and "pl_qty l2 = Some 3"
  shows "(case preview_rows E d [(l1, Some ''GEN''), (l2, Some ''GEN'')] Map.empty of
            Inl e \<Rightarrow> False
          | Inr previews \<Rightarrow>
              map (\<lambda>v. (pv_line_id v, pv_codes v)) previews
                = [(pl_id l1, [''GEN-00001'', ''GEN-00002'']),
                   (pl_id l2, [''GEN-00003'', ''GEN-00004'', ''GEN-00005''])])"
  using fresh_scan [OF assms(3,2,1)] assms(4,5)
  by (simp add: Let_def max_seq_for_prefix_def strip_gen line_qty_def gen_preview_codes)

lemma filter_more:
  assumes "filter P xs = ys" and "\<forall>x\<in>set ys. Q x"
  shows "filter (\<lambda>x. P x \<and> Q x) xs = ys"
proof -
  have "filter (\<lambda>x. P x \<and> Q x) xs = filter Q (filter P xs)" by simp
  also have "\<dots> = filter Q ys" by (simp only: assms(1))
  also have "\<dots> = ys" using assms(2) by (simp only: filter_True)
  finally show ?thesis .
qed

lemma filter_none:
  "filter P xs = [] \<Longrightarrow> filter (\<lambda>x. P x \<and> Q x) xs = []"
  by (induction xs) (auto split: if_splits)

text \<open>Mint of the two lines.\<close>

lemma mint_two:
  assumes acc: "\<forall>s. \<not> fails E s" and run: "\<not> txn_aborted d" and fresh: "fresh_prefix d ''GEN''"
  shows "\<exists>d1. mint_rows E [(i1, Some ''GEN''), (i2, Some ''GEN'')] (0, d) = Inr (2, d1)
           \<and> po_lines d1
               = map (\<lambda>l. if pl_id l = i2 then l\<lparr>pl_synergy_id := Some ''GEN-00002''\<rparr> else l)
                   (map (\<lambda>l. if pl_id l = i1 then l\<lparr>pl_synergy_id := Some ''GEN-00001''\<rparr> else l)
                      (po_lines d))
           \<and> id_prefix_counters d1 ''GEN'' = Some (Some 3)
           \<and> inventory_items d1 = inventory_items d \<and> categories d1 = categories d
           \<and> \<not> txn_aborted d1"
proof -
  define dA where "dA = d\<lparr>id_prefix_counters := (id_prefix_counters d)(''GEN'' \<mapsto> Some (1 + 1)),
                    synergy_id_events := synergy_id_events d
                       @ [mint_event ''GEN'' 1 (fmt_synergy ''GEN'' 1) no_ctx]\<rparr>"
  define dB where "dB = set_line_synergy_id i1 (Some ''GEN-00001'') dA"
  define dC where "dC = dB\<lparr>id_prefix_counters := (id_prefix_counters dB)(''GEN'' \<mapsto> Some (2 + 1)),
                    synergy_id_events := synergy_id_events dB
                       @ [mint_event ''GEN'' 2 (fmt_synergy ''GEN'' 2) no_ctx]\<rparr>"
  define dD where "dD = set_line_synergy_id i2 (Some ''GEN-00002'') dC"
  have a1: "get_next_synergy_code E ''GEN'' no_ctx d = Inr (''GEN-00001'', dA)"
    using alloc_accepted [OF _ _ fresh_reserve [OF fresh run acc], of no_ctx] acc
    by (simp add: dA_def gen_codes)
  have runA: "\<not> txn_aborted dA" using run by (simp add: dA_def)
  have runB: "\<not> txn_aborted dB" using runA by (simp add: dB_def set_line_synergy_id_def)
  have rowB: "id_prefix_counters dB ''GEN'' = Some (Some 2)"
    by (simp add: dB_def dA_def set_line_synergy_id_def)
  have a2: "get_next_synergy_code E ''GEN'' no_ctx dB = Inr (''GEN-00002'', dC)"
    using alloc_accepted [OF _ _ row_reserve [OF rowB runB acc], of no_ctx] acc
    by (simp add: dC_def gen_codes)
  have runC: "\<not> txn_aborted dC" using runB by (simp add: dC_def)
  have "mint_rows E [(i1, Some ''GEN''), (i2, Some ''GEN'')] (0, d) = Inr (2, dD)"
    using a1 a2 runA runC by (simp add: Let_def strip_gen dB_def [symmetric] dD_def)
  moreover have "po_lines dD
               = map (\<lambda>l. if pl_id l = i2 then l\<lparr>pl_synergy_id := Some ''GEN-00002''\<rparr> else l)
                   (map (\<lambda>l. if pl_id l = i1 then l\<lparr>pl_synergy_id := Some ''GEN-00001''\<rparr> else l)
                      (po_lines d))"
    by (simp add: dD_def dC_def dB_def dA_def set_line_synergy_id_def)
  moreover have "id_prefix_counters dD ''GEN'' = Some (Some 3)"
    by (simp add: dD_def dC_def set_line_synergy_id_def)
  moreover have "inventory_items dD = inventory_items d" "categories dD = categories d"
    by (simp_all add: dD_def dC_def dB_def dA_def set_line_synergy_id_def)
  moreover have "\<not> txn_aborted dD" using runC by (simp add: dD_def set_line_synergy_id_def)
  ultimately show ?thesis by blast
qed

text \<open>
  The explosion of two lines that carry their minted codes, the first of quantity \<open>qa\<close>,
  when the counter is at 3 and no item of the purchase order exists: quantities 2 and 3,
  and quantities 3 and 2.
\<close>

lemma explode_two_23:
  assumes acc: "\<forall>s. \<not> fails E s" and run: "\<not> txn_aborted d"
    and row: "id_prefix_counters d ''GEN'' = Some (Some 3)"
    and unused: "''GEN-00001'' \<notin> ii_synergy_code ` set (inventory_items d)"
      "''GEN-00002'' \<notin> ii_synergy_code ` set (inventory_items d)"
      "''GEN-00003'' \<notin> ii_synergy_code ` set (inventory_items d)"
      "''GEN-00004'' \<notin> ii_synergy_code ` set (inventory_items d)"
      "''GEN-00005'' \<notin> ii_synergy_code ` set (inventory_items d)"
    and a: "pl_synergy_id a = Some ca" "pl_qty a = Some 2" "pl_category_guess a \<noteq> None"
    and b: "pl_synergy_id b = Some cb" "pl_qty b = Some 3" "pl_category_guess b \<noteq> None"
    and codes: "{ca, cb} = {''GEN-00001'', ''GEN-00002''}"
  shows "\<exists>d2. explode_rows E po (\<lambda>lid. 0) [(a, ''GEN''), (b, ''GEN'')] (0, 0, [], d)
                 = Inr (5, 0, [cb, ca], d2)
           \<and> inventory_items d2
               = inventory_items d
                 @ [new_item E po a ca, new_item E po a ''GEN-00003'',
                    new_item E po b cb, new_item E po b ''GEN-00004'',
                    new_item E po b ''GEN-00005'']
           \<and> po_lines d2 = po_lines d \<and> categories d2 = categories d \<and> \<not> txn_aborted d2"
proof -
  from codes have cs: "(ca = ''GEN-00001'' \<and> cb = ''GEN-00002'')
                       \<or> (ca = ''GEN-00002'' \<and> cb = ''GEN-00001'')"
    by (auto simp: doubleton_eq_iff)
  then show ?thesis
    using acc run row unused a b
    by (auto simp: Let_def line_qty_def strip_gen numeral_2_eq_2 numeral_3_eq_3
        unit_pre_minted unit_allocated gen_codes new_item_fields
        simp del: explode_units.simps(2))
qed

lemma explode_two_32:
  assumes acc: "\<forall>s. \<not> fails E s" and run: "\<not> txn_aborted d"
    and row: "id_prefix_counters d ''GEN'' = Some (Some 3)"
    and unused: "''GEN-00001'' \<notin> ii_synergy_code ` set (inventory_items d)"
      "''GEN-00002'' \<notin> ii_synergy_code ` set (inventory_items d)"
      "''GEN-00003'' \<notin> ii_synergy_code ` set (inventory_items d)"
      "''GEN-00004'' \<notin> ii_synergy_code ` set (inventory_items d)"
      "''GEN-00005'' \<notin> ii_synergy_code ` set (inventory_items d)"
    and a: "pl_synergy_id a = Some ca" "pl_qty a = Some 3" "pl_category_guess a \<noteq> None"
    and b: "pl_synergy_id b = Some cb" "pl_qty b = Some 2" "pl_category_guess b \<noteq> None"
    and codes: "{ca, cb} = {''GEN-00001'', ''GEN-00002''}"
  shows "\<exists>d2. explode_rows E po (\<lambda>lid. 0) [(a, ''GEN''), (b, ''GEN'')] (0, 0, [], d)
                 = Inr (5, 0, [cb, ca], d2)
           \<and> inventory_items d2
               = inventory_items d
                 @ [new_item E po a ca, new_item E po a ''GEN-00003'',
                    new_item E po a ''GEN-00004'',
                    new_item E po b cb, new_item E po b ''GEN-00005'']
           \<and> po_lines d2 = po_lines d \<and> categories d2 = categories d \<and> \<not> txn_aborted d2"
proof -
  from codes have cs: "(ca = ''GEN-00001'' \<and> cb = ''GEN-00002'')
                       \<or> (ca = ''GEN-00002'' \<and> cb = ''GEN-00001'')"
    by (auto simp: doubleton_eq_iff)
  then show ?thesis
    using acc run row unused a b
    by (auto simp: Let_def line_qty_def strip_gen numeral_2_eq_2 numeral_3_eq_3
        unit_pre_minted unit_allocated gen_codes new_item_fields
        simp del: explode_units.simps(2))
qed


section \<open>Claims\<close>

lemma reserve_gen: "reserve_seq env0 db_gen ''GEN'' = Inr 1"
  by code_simp







text \<open>
  Two cases that the amended claim C1 leaves out. A call whose audit insert is rejected
  returns its code, but its transaction is aborted and the counter is not advanced: the
  next call returns the same code.
\<close>

lemma audit_outage_repeats_code:
  "sys_run [Call env_audit_down ''GEN'' no_ctx, Call env0 ''GEN'' no_ctx] db_gen
     = Some [(''GEN'', Inr ''GEN-00001''), (''GEN'', Inr ''GEN-00001'')]"
  by code_simp

text \<open>
  Two calls that overlap while the prefix has no counter row: the locked read finds no
  row to lock, both calls scan the same data, and both return \<open>GEN-00001\<close>. Once the row
  exists the second locked read has to wait for the first call to end, and two calls
  that follow each other return different codes.
\<close>

lemma first_allocations_race:
  "id_prefix_counters db_gen ''GEN'' = None
   \<and> sys_run [Begin 1 env0 ''GEN'' no_ctx, Begin 2 env0 ''GEN'' no_ctx, Finish 1, Finish 2]
        db_gen
     = Some [(''GEN'', Inr ''GEN-00001''), (''GEN'', Inr ''GEN-00001'')]"
  by code_simp

lemma locked_row_serialises:
  "id_prefix_counters db_gen_taken ''GEN'' = Some (Some 2)
   \<and> sys_run [Begin 1 env0 ''GEN'' no_ctx, Begin 2 env0 ''GEN'' no_ctx, Finish 1, Finish 2]
        db_gen_taken = None
   \<and> sys_run [Begin 1 env0 ''GEN'' no_ctx, Finish 1, Begin 2 env0 ''GEN'' no_ctx, Finish 2]
        db_gen_taken
     = Some [(''GEN'', Inr ''GEN-00002''), (''GEN'', Inr ''GEN-00003'')]"
  by code_simp





text \<open>
  Mint and explosion of the two single-unit lines of \<open>db_lap_new\<close> lead to the tables of
  \<open>db_lap_units\<close>: each item carries the code of its line.
\<close>

lemma lap_units_reached:
  "(case db_txn (mint_synergy env0 5 [] False) db_lap_new of
      (Inl e, d1) \<Rightarrow> False
    | (Inr u, d1) \<Rightarrow>
        (case db_txn (explode_by_line env0 5) d1 of
           (Inl e, d2) \<Rightarrow> False
         | (Inr r, d2) \<Rightarrow>
             u = 2 \<and> res_created r = 2
             \<and> id_prefix_counters d2 ''LAP'' = id_prefix_counters db_lap_units ''LAP''
             \<and> inventory_items d2 = inventory_items db_lap_units
             \<and> po_lines d2 = po_lines db_lap_units
             \<and> synergy_id_events d2 = synergy_id_events db_lap_units))"
  by code_simp







text \<open>
  What the amended claim C2 leaves out. The codes of the items are in \<open>synergy_code\<close>,
  the scan reads \<open>synergy_id\<close>: after the explosion of \<open>db_gen\<close> the items carry
  \<open>GEN-00001\<close> to \<open>GEN-00005\<close>, the scan finds nothing, a reset writes \<open>next_seq = 1\<close>, and
  the next call returns \<open>GEN-00001\<close>, the code of an item.
\<close>

lemma reset_misses_item_codes:
  "(case db_txn (explode_by_line env0 7) db_gen of
      (Inl e, d1) \<Rightarrow> False
    | (Inr r, d1) \<Rightarrow>
        item_code_seqs d1 ''GEN'' = [1, 2, 3, 4, 5] \<and> seqs_present d1 ''GEN'' = []
        \<and> id_prefix_counters d1 ''GEN'' = Some (Some 6)
        \<and> \<not> scan_reaches_items d1 ''GEN''
        \<and> (case db_txn (prefix_reset env0 ''GEN'' None) d1 of
             (Inl e, d2) \<Rightarrow> False
           | (Inr n, d2) \<Rightarrow>
               n = 1 \<and> id_prefix_counters d2 ''GEN'' = Some (Some 1)
               \<and> \<not> counter_above_used d2 ''GEN''
               \<and> fst (db_txn (get_next_synergy_code env0 ''GEN'' no_ctx) d2)
                   = Inr ''GEN-00001''))"
  by code_simp

text \<open>
  The allocator of \<open>fastapi/routes_synergy.py\<close> seeds a missing counter from the scan:
  with the scan's maximum \<open>M\<close> it returns the code of \<open>M + 1\<close> and stores \<open>M + 2\<close>.
\<close>

lemma seed_from_scan:
  assumes "id_prefix_counters d prefix = None \<or> id_prefix_counters d prefix = Some None"
    and "get_true_max_seq E d prefix = Inr M"
    and "\<not> fails E SelectCounter" and "\<not> fails E UpsertCounter"
  shows "\<exists>d'. get_next_synergy_code E prefix who d = Inr (fmt_synergy prefix (M + 1), d')
           \<and> id_prefix_counters d' prefix = Some (Some (M + 2))"
proof -
  have run: "\<not> txn_aborted d" using true_max_running [OF assms(2)] .
  have "reserve_seq E d prefix = Inr (M + 1)"
    using assms run by (auto simp: reserve_seq_def cur_execute_def)
  then show ?thesis using assms(4) run
    by (auto simp: get_next_synergy_code_def advance_counter_def Let_def upsert_counter_def
        log_synergy_event_def cur_execute_def split: sum.splits)
qed

text \<open>In \<open>db_lap7\<close> the first allocation of \<open>fastapi/routes_synergy.py\<close> returns \<open>LAP-00008\<close>.\<close>

lemma first_allocation_lap7:
  "get_true_max_seq env0 db_lap7 ''LAP'' = Inr 7
   \<and> (case get_next_synergy_code env0 ''LAP'' no_ctx db_lap7 of
        Inl e \<Rightarrow> False
      | Inr (c, d') \<Rightarrow> c = ''LAP-00008'' \<and> id_prefix_counters d' ''LAP'' = Some (Some 9))"
  by code_simp

text \<open>
  Claim C3. \<open>_take_synergy\<close> of \<open>main.py\<close> does not scan: in \<open>db_lap7\<close>, where \<open>LAP\<close> has
  no counter row and the codes \<open>LAP-00001\<close> to \<open>LAP-00007\<close> are in use, its first
  reservation returns \<open>LAP-0001\<close> and stores \<open>next_seq = 2\<close>.
\<close>

theorem take_synergy_main_ignores_existing_codes:
  "id_prefix_counters db_lap7 ''LAP'' = None
   \<and> seqs_present db_lap7 ''LAP'' = [1, 7, 3, 5, 2, 6, 4]
   \<and> (case take_synergy_main env0 ''LAP'' db_lap7 of
        Inl e \<Rightarrow> False
      | Inr (c, d') \<Rightarrow> c = ''LAP-0001'' \<and> id_prefix_counters d' ''LAP'' = Some (Some 2))"
  by code_simp

lemma safe_min_next_max: "0 \<le> M \<Longrightarrow> safe_min_next M old = max (M + 1) old"
  by (simp add: safe_min_next_def max_def)

text \<open>
  Claim C4, counterexample: with the scan's maximum 10 and no counter row the safe
  minimum is 11; the request \<open>next = 0\<close> is below it and is rejected, but by the earlier
  check \<open>next >= 1\<close>, whose error carries no safe minimum.
\<close>

theorem prefix_set_below_one_counterexample:
  "get_true_max_seq env0 db_lap10 ''LAP'' = Inr 10
   \<and> old_next_seq db_lap10 ''LAP'' = 0
   \<and> prefix_set env0 ''LAP'' 0 None None db_lap10 = Inl (Http400 ''next must be >= 1'')
   \<and> error_safe_next (Http400 ''next must be >= 1'') = None"
proof (intro conjI)
  show "get_true_max_seq env0 db_lap10 ''LAP'' = Inr 10" by code_simp
  show "old_next_seq db_lap10 ''LAP'' = 0" by code_simp
  show "prefix_set env0 ''LAP'' 0 None None db_lap10 = Inl (Http400 ''next must be >= 1'')"
    by (simp add: prefix_set_def)
  show "error_safe_next (Http400 ''next must be >= 1'') = None"
    by (simp add: error_safe_next_def)
qed

text \<open>
  Claim C4, amended. \<open>prefix_set\<close> of \<open>fastapi/routes_synergy.py\<close> rejects every
  \<open>next < 1\<close> with the error \<open>next must be >= 1\<close>; and when the counter row and the scan
  can be read, it rejects every \<open>next >= 1\<close> below
  \<open>max (true_max_seq + 1) (current next_seq)\<close> (0 for a missing row) with an error that
  carries this safe minimum. In both cases the state is unchanged.
\<close>

theorem prefix_set_rejects_below_safe_minimum:
  "(nxt < 1 \<longrightarrow>
      db_txn (prefix_set E prefix nxt actor reason) d = (Inl (Http400 ''next must be >= 1''), d))
   \<and> (1 \<le> nxt \<and> \<not> fails E SelectCounter \<and> get_true_max_seq E d prefix = Inr M
        \<and> nxt < max (M + 1) (old_next_seq d prefix) \<longrightarrow>
      db_txn (prefix_set E prefix nxt actor reason) d
        = (Inl (Http400SafeNext
                  (reject_message prefix nxt (max (M + 1) (old_next_seq d prefix)))
                  (max (M + 1) (old_next_seq d prefix))), d))"
proof (intro conjI impI)
  assume "nxt < 1"
  then show "db_txn (prefix_set E prefix nxt actor reason) d
               = (Inl (Http400 ''next must be >= 1''), d)"
    by (simp add: db_txn_def prefix_set_def)
next
  assume a: "1 \<le> nxt \<and> \<not> fails E SelectCounter \<and> get_true_max_seq E d prefix = Inr M
        \<and> nxt < max (M + 1) (old_next_seq d prefix)"
  then have M: "get_true_max_seq E d prefix = Inr M" by simp
  have run: "\<not> txn_aborted d" using true_max_running [OF M] .
  have s: "safe_min_next M (old_next_seq d prefix) = max (M + 1) (old_next_seq d prefix)"
    using true_max_bound(1) [OF M] by (rule safe_min_next_max)
  have "prefix_set E prefix nxt actor reason d
          = Inl (Http400SafeNext
                  (reject_message prefix nxt (max (M + 1) (old_next_seq d prefix)))
                  (max (M + 1) (old_next_seq d prefix)))"
    using a run by (simp add: prefix_set_def cur_execute_def Let_def s)
  with run show "db_txn (prefix_set E prefix nxt actor reason) d
        = (Inl (Http400SafeNext
                  (reject_message prefix nxt (max (M + 1) (old_next_seq d prefix)))
                  (max (M + 1) (old_next_seq d prefix))), d)"
    by (rule db_txn_raise)
qed

lemma scan_lap10: "get_true_max_seq env0 db_lap10 ''LAP'' = Inr 10"
  by code_simp

lemma old_lap10: "old_next_seq db_lap10 ''LAP'' = 0"
  by code_simp

lemma msg_lap10:
  "reject_message ''LAP'' 5 11 =
     ''Cannot set next sequence for prefix LAP to 5 because IDs up to 10 may already exist. The minimum safe value is 11.''"
  by code_simp

theorem prefix_set_rejects_below_safe_minimum_witness:
  "db_txn (prefix_set env0 ''LAP'' 0 None None) db_lap10
     = (Inl (Http400 ''next must be >= 1''), db_lap10)
   \<and> db_txn (prefix_set env0 ''LAP'' 5 None None) db_lap10
     = (Inl (Http400SafeNext
          ''Cannot set next sequence for prefix LAP to 5 because IDs up to 10 may already exist. The minimum safe value is 11.''
          11), db_lap10)"
  using prefix_set_rejects_below_safe_minimum
      [where E = env0 and prefix = "''LAP''" and nxt = 0 and actor = None and reason = None
         and d = db_lap10]
    prefix_set_rejects_below_safe_minimum
      [where E = env0 and prefix = "''LAP''" and nxt = 5 and actor = None and reason = None
         and d = db_lap10 and M = 10]
    scan_lap10 old_lap10 msg_lap10
  by (simp add: env0_def)

text \<open>
  \<open>prefix_set\<close> of \<open>main.py\<close> has no such guard: it accepts \<open>next = 5\<close> in the same state.
\<close>

lemma prefix_set_main_accepts:
  "(case prefix_set_main env0 ''LAP'' 5 db_lap10 of
      Inl e \<Rightarrow> False
    | Inr (r, d') \<Rightarrow> r = 5 \<and> id_prefix_counters d' ''LAP'' = Some (Some 5)
                     \<and> \<not> counter_above_used d' ''LAP'')"
  by code_simp

text \<open>
  Claim C5. A line with a category and a prefix whose \<open>need = max 0 (qty - have)\<close> is 0 is
  skipped and its quantity is added to \<open>skipped\<close>. When \<open>explode_by_line\<close> has returned, a
  second call on the resulting state, under any conditions, returns \<open>created = 0\<close>, counts
  every line's quantity as skipped, reports \<open>already\<close> and leaves the state as it is.
\<close>

theorem explode_by_line_idempotent:
  "(pl_category_guess ln \<noteq> None \<and> strip p \<noteq> [] \<and> max 0 (line_qty ln - int (counts (pl_id ln))) = 0
      \<longrightarrow> explode_rows E po counts ((ln, p) # rows) (c, s, codes, d)
            = explode_rows E po counts rows (c, s + line_qty ln, codes, d))
   \<and> (explode_by_line E po d = Inr (r, dA) \<longrightarrow>
        explode_by_line E' po dA
          = Inr (\<lparr>res_created = 0,
                  res_skipped = sum_list (map (\<lambda>row. line_qty (fst row)) (explode_select po d)),
                  res_state = ''already''\<rparr>, dA)
        \<and> explode_select po dA = explode_select po d)"
proof (intro conjI impI)
  assume "pl_category_guess ln \<noteq> None \<and> strip p \<noteq> []
            \<and> max 0 (line_qty ln - int (counts (pl_id ln))) = 0"
  then have "line_qty ln \<le> int (counts (pl_id ln))" by (simp add: max_def split: if_splits)
  then show "explode_rows E po counts ((ln, p) # rows) (c, s, codes, d)
            = explode_rows E po counts rows (c, s + line_qty ln, codes, d)"
    by (intro explode_rows_skip_step) simp
next
  assume "explode_by_line E po d = Inr (r, dA)"
  then show "explode_by_line E' po dA
          = Inr (\<lparr>res_created = 0,
                  res_skipped = sum_list (map (\<lambda>row. line_qty (fst row)) (explode_select po d)),
                  res_state = ''already''\<rparr>, dA)"
    by (rule explode_idem)
next
  assume a: "explode_by_line E po d = Inr (r, dA)"
  then obtain c s codes where
    run: "explode_rows E po (existing_counts_of po d) (explode_select po d)
            (0, 0, existing_codes_of po d, d) = Inr (c, s, codes, dA)"
    by (auto simp: explode_by_line_def split: sum.splits)
  have "po_lines dA = po_lines d" "categories dA = categories d"
    using explode_rows_inv [OF run] by simp_all
  then show "explode_select po dA = explode_select po d"
    by (rule explode_select_cong)
qed

lemma explode_gen:
  "(case explode_by_line env0 7 db_gen of
      Inl e \<Rightarrow> False
    | Inr (r, d1) \<Rightarrow> res_created r = 5 \<and> length (inventory_items d1) = 5)"
  by code_simp

lemma select_gen_qty:
  "sum_list (map (\<lambda>row. line_qty (fst row)) (explode_select 7 db_gen)) = 5"
  by code_simp

lemma skip_gen:
  "pl_category_guess (mk_line 1 7 100 2 (Some 1) None) \<noteq> None \<and> strip ''GEN'' \<noteq> []
     \<and> max 0 (line_qty (mk_line 1 7 100 2 (Some 1) None) - int (2::nat)) = 0"
  by code_simp

theorem explode_by_line_idempotent_witness:
  "explode_rows env0 7 (\<lambda>l. 2) [(mk_line 1 7 100 2 (Some 1) None, ''GEN'')]
       (0, 0, [], db_gen) = Inr (0, 2, [], db_gen)
   \<and> (case explode_by_line env0 7 db_gen of
        Inl e \<Rightarrow> False
      | Inr (r, d1) \<Rightarrow>
          res_created r = 5 \<and> length (inventory_items d1) = 5
          \<and> explode_by_line env_counter_down 7 d1
              = Inr (\<lparr>res_created = 0, res_skipped = 5, res_state = ''already''\<rparr>, d1))"
proof -
  obtain r d1 where h: "explode_by_line env0 7 db_gen = Inr (r, d1)"
    and r: "res_created r = 5" "length (inventory_items d1) = 5"
    using explode_gen by (auto split: sum.splits)
  have "explode_by_line env_counter_down 7 d1
          = Inr (\<lparr>res_created = 0, res_skipped = 5, res_state = ''already''\<rparr>, d1)"
    using explode_by_line_idempotent
      [where E = env0 and E' = env_counter_down and po = 7 and d = db_gen and r = r and dA = d1]
      h select_gen_qty
    by simp
  moreover have "explode_rows env0 7 (\<lambda>l. 2) [(mk_line 1 7 100 2 (Some 1) None, ''GEN'')]
       (0, 0, [], db_gen) = Inr (0, 2, [], db_gen)"
    using explode_by_line_idempotent
      [where E = env0 and po = 7 and counts = "\<lambda>l. 2" and rows = "[]" and c = 0 and s = 0
         and codes = "[]" and d = db_gen and ln = "mk_line 1 7 100 2 (Some 1) None"
         and p = "''GEN''"]
      skip_gen
    by (simp add: line_qty_def mk_line_def)
  ultimately show ?thesis using h r by simp
qed

text \<open>
  Claim C6. Let the prefix \<open>GEN\<close> be fresh (no counter row, no code \<open>GEN-%\<close> on any line
  or item) and let a purchase order without items have exactly two lines of prefix
  \<open>GEN\<close>, not yet minted, stored in either order: \<open>l1\<close> of quantity 2 and \<open>l2\<close> of quantity
  3, \<open>l1\<close> before \<open>l2\<close> by creation time and then id. When no statement is rejected, the
  preview gives \<open>GEN-00001, GEN-00002\<close> to \<open>l1\<close> and \<open>GEN-00003, GEN-00004, GEN-00005\<close> to
  \<open>l2\<close>. Mint writes \<open>GEN-00001\<close> on \<open>l1\<close> and \<open>GEN-00002\<close> on \<open>l2\<close>; the explosion then
  creates five items whose codes are exactly these five, the first item of each line
  carrying the line's minted code, the lines taken in the order of their ids; a second
  explosion, under any conditions, creates nothing and leaves the state as it is.
\<close>

theorem worked_example_gen:
  assumes acc: "\<forall>s. \<not> fails E s"
    and run: "\<not> txn_aborted d"
    and fresh: "fresh_prefix d ''GEN''"
    and key: "distinct (map pl_id (po_lines d))"
    and lines: "filter (\<lambda>l. pl_purchase_order_id l = po) (po_lines d) = [l1, l2]
                \<or> filter (\<lambda>l. pl_purchase_order_id l = po) (po_lines d) = [l2, l1]"
    and order: "created_or (now E) l1 < created_or (now E) l2
                \<or> (created_or (now E) l1 = created_or (now E) l2 \<and> pl_id l1 < pl_id l2)"
    and prefix: "line_prefix d l1 = Some ''GEN''" "line_prefix d l2 = Some ''GEN''"
    and qty: "pl_qty l1 = Some 2" "pl_qty l2 = Some 3"
    and unminted: "pl_synergy_id l1 = None" "pl_synergy_id l2 = None"
    and no_items: "filter (\<lambda>i. ii_purchase_order_id i = Some po) (inventory_items d) = []"
    and ids: "pl_id l1 \<in> set line_ids" "pl_id l2 \<in> set line_ids"
  shows "(case synergy_preview E po line_ids d of
            Inl e \<Rightarrow> False
          | Inr (previews, note) \<Rightarrow>
              map (\<lambda>v. (pv_line_id v, pv_codes v)) previews
                = [(pl_id l1, [''GEN-00001'', ''GEN-00002'']),
                   (pl_id l2, [''GEN-00003'', ''GEN-00004'', ''GEN-00005''])])
         \<and> (case db_txn (mint_synergy E po [] False) d of
               (Inl e, d1) \<Rightarrow> False
             | (Inr updated, d1) \<Rightarrow>
                 updated = 2
                 \<and> po_lines d1
                     = map (\<lambda>l. if pl_id l = pl_id l1
                                  then l\<lparr>pl_synergy_id := Some ''GEN-00001''\<rparr>
                                  else if pl_id l = pl_id l2
                                  then l\<lparr>pl_synergy_id := Some ''GEN-00002''\<rparr>
                                  else l) (po_lines d)
                 \<and> (case db_txn (explode_by_line E po) d1 of
                      (Inl e, d2) \<Rightarrow> False
                    | (Inr r, d2) \<Rightarrow>
                        r = \<lparr>res_created = 5, res_skipped = 0, res_state = ''done''\<rparr>
                        \<and> take (length (inventory_items d)) (inventory_items d2)
                            = inventory_items d
                        \<and> map (\<lambda>i. (ii_po_line_id i, ii_synergy_code i))
                              (drop (length (inventory_items d)) (inventory_items d2))
                            = (if pl_id l1 < pl_id l2
                               then [(Some (pl_id l1), ''GEN-00001''),
                                     (Some (pl_id l1), ''GEN-00003''),
                                     (Some (pl_id l2), ''GEN-00002''),
                                     (Some (pl_id l2), ''GEN-00004''),
                                     (Some (pl_id l2), ''GEN-00005'')]
                               else [(Some (pl_id l2), ''GEN-00002''),
                                     (Some (pl_id l2), ''GEN-00003''),
                                     (Some (pl_id l2), ''GEN-00004''),
                                     (Some (pl_id l1), ''GEN-00001''),
                                     (Some (pl_id l1), ''GEN-00005'')])
                        \<and> set (map ii_synergy_code
                                 (drop (length (inventory_items d)) (inventory_items d2)))
                            = {''GEN-00001'', ''GEN-00002'', ''GEN-00003'', ''GEN-00004'',
                               ''GEN-00005''}
                        \<and> db_txn (explode_by_line E' po) d2
                            = (Inr \<lparr>res_created = 0, res_skipped = 5,
                                     res_state = ''already''\<rparr>, d2)))"
proof -
  let ?P = "\<lambda>l. pl_purchase_order_id l = po"
  let ?g = "\<lambda>l. if pl_id l = pl_id l1 then l\<lparr>pl_synergy_id := Some ''GEN-00001''\<rparr>
                 else if pl_id l = pl_id l2 then l\<lparr>pl_synergy_id := Some ''GEN-00002''\<rparr>
                 else l"
  have "distinct (map pl_id (filter ?P (po_lines d)))"
    using key by (rule distinct_map_filter)
  then have ne: "pl_id l1 \<noteq> pl_id l2" using lines by auto
  have cat: "pl_category_guess l1 \<noteq> None" "pl_category_guess l2 \<noteq> None"
    using prefix by (auto simp: line_prefix_def split: option.splits)

  have els: "set (filter ?P (po_lines d)) = {l1, l2}"
    using lines by (elim disjE) (simp_all only: list.set insert_commute)

  have f1: "filter (\<lambda>l. ?P l \<and> pl_id l \<in> set line_ids) (po_lines d)
                      = filter ?P (po_lines d)"
    by (rule filter_more [OF refl]) (simp only: els, use ids in simp)
  have s1: "order_created_id (now E)
                   (filter (\<lambda>l. ?P l \<and> pl_id l \<in> set line_ids) (po_lines d)) = [l1, l2]"
    unfolding f1 using lines order_two [OF order] by auto
  have nonempty: "line_ids \<noteq> []" using ids by auto
  have pv: "(case synergy_preview E po line_ids d of
            Inl e \<Rightarrow> False
          | Inr (previews, note) \<Rightarrow>
              map (\<lambda>v. (pv_line_id v, pv_codes v)) previews
                = [(pl_id l1, [''GEN-00001'', ''GEN-00002'']),
                   (pl_id l2, [''GEN-00003'', ''GEN-00004'', ''GEN-00005''])])"
    using preview_two [OF acc run fresh qty] nonempty
    by (simp add: synergy_preview_def s1 prefix split: sum.splits)

  have f2:
    "filter (\<lambda>l. ?P l \<and> (([]::uuid list) = [] \<or> pl_id l \<in> set []) \<and> pl_synergy_id l = None)
          (po_lines d) = filter ?P (po_lines d)"
    by (rule filter_more [OF refl]) (simp only: els, use unminted in simp)
  have s2: "order_created_id (now E)
       (filter (\<lambda>l. ?P l \<and> (([]::uuid list) = [] \<or> pl_id l \<in> set []) \<and> pl_synergy_id l = None)
          (po_lines d)) = [l1, l2]"
    unfolding f2 using lines order_two [OF order] by auto
  from mint_two [OF acc run fresh, of "pl_id l1" "pl_id l2"] obtain d1 where
    mr: "mint_rows E [(pl_id l1, Some ''GEN''), (pl_id l2, Some ''GEN'')] (0, d) = Inr (2, d1)"
    and pl1: "po_lines d1
               = map (\<lambda>l. if pl_id l = pl_id l2 then l\<lparr>pl_synergy_id := Some ''GEN-00002''\<rparr> else l)
                   (map (\<lambda>l. if pl_id l = pl_id l1 then l\<lparr>pl_synergy_id := Some ''GEN-00001''\<rparr> else l)
                      (po_lines d))"
    and row1: "id_prefix_counters d1 ''GEN'' = Some (Some 3)"
    and it1: "inventory_items d1 = inventory_items d" and cat1: "categories d1 = categories d"
    and run1: "\<not> txn_aborted d1" by blast
  have "mint_synergy E po [] False d
          = mint_rows E
              (map (\<lambda>l. (pl_id l, line_prefix d l))
                 (order_created_id (now E)
                    (filter (\<lambda>l. ?P l \<and> (([]::uuid list) = [] \<or> pl_id l \<in> set [])
                                 \<and> pl_synergy_id l = None)
                       (po_lines d))))
              (0, d)"
    by (simp only: mint_synergy_def Let_def if_False)
  also have "\<dots> = mint_rows E [(pl_id l1, Some ''GEN''), (pl_id l2, Some ''GEN'')] (0, d)"
    by (simp only: s2 list.map prefix)
  also note mr
  finally have "mint_synergy E po [] False d = Inr (2, d1)" .
  with run have mint: "db_txn (mint_synergy E po [] False) d = (Inr 2, d1)"
    using run1 by (rule db_txn_commit)
  have pl1': "po_lines d1 = map ?g (po_lines d)"
    unfolding pl1 using ne by auto

  define m1 where "m1 = l1\<lparr>pl_synergy_id := Some ''GEN-00001''\<rparr>"
  define m2 where "m2 = l2\<lparr>pl_synergy_id := Some ''GEN-00002''\<rparr>"
  have g: "?g l1 = m1" "?g l2 = m2" using ne by (simp_all add: m1_def m2_def)
  have keep: "\<And>l. pl_purchase_order_id (?g l) = pl_purchase_order_id l" by simp
  have "filter ?P (po_lines d1) = map ?g (filter ?P (po_lines d))"
    unfolding pl1' by (simp only: filter_map comp_def keep)
  then have fl: "filter ?P (po_lines d1) = [m1, m2] \<or> filter ?P (po_lines d1) = [m2, m1]"
    using lines g by auto
  have mid: "pl_id m1 = pl_id l1" "pl_id m2 = pl_id l2" by (simp_all add: m1_def m2_def)
  have "line_prefix d m1 = line_prefix d l1" "line_prefix d m2 = line_prefix d l2"
    by (simp_all add: line_prefix_def m1_def m2_def)
  then have mp: "line_prefix d1 m1 = Some ''GEN''" "line_prefix d1 m2 = Some ''GEN''"
    using prefix by (simp_all only: line_prefix_cong [OF cat1])
  have counts: "existing_counts_of po d1 = (\<lambda>lid. 0)"
    by (intro ext) (simp add: existing_counts_of_def it1 filter_none [OF no_items])
  have ecodes: "existing_codes_of po d1 = []"
    by (simp add: existing_codes_of_def it1 no_items)
  have unused: "''GEN-00001'' \<notin> ii_synergy_code ` set (inventory_items d1)"
      "''GEN-00002'' \<notin> ii_synergy_code ` set (inventory_items d1)"
      "''GEN-00003'' \<notin> ii_synergy_code ` set (inventory_items d1)"
      "''GEN-00004'' \<notin> ii_synergy_code ` set (inventory_items d1)"
      "''GEN-00005'' \<notin> ii_synergy_code ` set (inventory_items d1)"
    using fresh_gen_unused [OF fresh] by (simp_all add: it1)
  have ma: "pl_synergy_id m1 = Some ''GEN-00001''" "pl_qty m1 = Some 2"
    "pl_category_guess m1 \<noteq> None"
    using qty cat by (simp_all add: m1_def)
  have mb: "pl_synergy_id m2 = Some ''GEN-00002''" "pl_qty m2 = Some 3"
    "pl_category_guess m2 \<noteq> None"
    using qty cat by (simp_all add: m2_def)
  have ex: "\<exists>d2. explode_by_line E po d1
                 = Inr (\<lparr>res_created = 5, res_skipped = 0, res_state = ''done''\<rparr>, d2)
             \<and> inventory_items d2 = inventory_items d
                 @ (if pl_id l1 < pl_id l2
                    then [new_item E po m1 ''GEN-00001'', new_item E po m1 ''GEN-00003'',
                          new_item E po m2 ''GEN-00002'', new_item E po m2 ''GEN-00004'',
                          new_item E po m2 ''GEN-00005'']
                    else [new_item E po m2 ''GEN-00002'', new_item E po m2 ''GEN-00003'',
                          new_item E po m2 ''GEN-00004'',
                          new_item E po m1 ''GEN-00001'', new_item E po m1 ''GEN-00005''])
             \<and> \<not> txn_aborted d2"
  proof (cases "pl_id l1 < pl_id l2")
    case True
    then have "sort_key pl_id (filter ?P (po_lines d1)) = [m1, m2]"
      using fl sort_id_two [of m1 m2] mid by auto
    then have sel: "explode_select po d1 = [(m1, ''GEN''), (m2, ''GEN'')]"
      by (simp add: explode_select_def mp)
    from explode_two_23 [OF acc run1 row1 unused ma mb, of po] obtain d2 where
      "explode_rows E po (\<lambda>lid. 0) [(m1, ''GEN''), (m2, ''GEN'')] (0, 0, [], d1)
                 = Inr (5, 0, [''GEN-00002'', ''GEN-00001''], d2)"
      "inventory_items d2
               = inventory_items d1
                 @ [new_item E po m1 ''GEN-00001'', new_item E po m1 ''GEN-00003'',
                    new_item E po m2 ''GEN-00002'', new_item E po m2 ''GEN-00004'',
                    new_item E po m2 ''GEN-00005'']"
      "\<not> txn_aborted d2" by auto
    then show ?thesis using True
      by (simp add: explode_by_line_def counts ecodes sel it1 explode_state_def)
  next
    case False
    with ne have lt: "pl_id l2 < pl_id l1" by simp
    then have "sort_key pl_id (filter ?P (po_lines d1)) = [m2, m1]"
      using fl sort_id_two [of m2 m1] mid by auto
    then have sel: "explode_select po d1 = [(m2, ''GEN''), (m1, ''GEN'')]"
      by (simp add: explode_select_def mp)
    from explode_two_32 [OF acc run1 row1 unused mb ma, of po] obtain d2 where
      "explode_rows E po (\<lambda>lid. 0) [(m2, ''GEN''), (m1, ''GEN'')] (0, 0, [], d1)
                 = Inr (5, 0, [''GEN-00001'', ''GEN-00002''], d2)"
      "inventory_items d2
               = inventory_items d1
                 @ [new_item E po m2 ''GEN-00002'', new_item E po m2 ''GEN-00003'',
                    new_item E po m2 ''GEN-00004'',
                    new_item E po m1 ''GEN-00001'', new_item E po m1 ''GEN-00005'']"
      "\<not> txn_aborted d2" by auto
    then show ?thesis using False
      by (simp add: explode_by_line_def counts ecodes sel it1 explode_state_def)
  qed
  then obtain d2 where
    eb: "explode_by_line E po d1
           = Inr (\<lparr>res_created = 5, res_skipped = 0, res_state = ''done''\<rparr>, d2)"
    and it2: "inventory_items d2 = inventory_items d
                 @ (if pl_id l1 < pl_id l2
                    then [new_item E po m1 ''GEN-00001'', new_item E po m1 ''GEN-00003'',
                          new_item E po m2 ''GEN-00002'', new_item E po m2 ''GEN-00004'',
                          new_item E po m2 ''GEN-00005'']
                    else [new_item E po m2 ''GEN-00002'', new_item E po m2 ''GEN-00003'',
                          new_item E po m2 ''GEN-00004'',
                          new_item E po m1 ''GEN-00001'', new_item E po m1 ''GEN-00005''])"
    and run2: "\<not> txn_aborted d2" by blast
  from run1 eb run2 have explode:
    "db_txn (explode_by_line E po) d1
       = (Inr \<lparr>res_created = 5, res_skipped = 0, res_state = ''done''\<rparr>, d2)"
    by (rule db_txn_commit)

  have total: "sum_list (map (\<lambda>row. line_qty (fst row)) (explode_select po d1)) = 5"
  proof -
    have "explode_select po d1 = [(m1, ''GEN''), (m2, ''GEN'')]
          \<or> explode_select po d1 = [(m2, ''GEN''), (m1, ''GEN'')]"
      using fl sort_id_two [of m1 m2] sort_id_two [of m2 m1] mid ne
      by (cases "pl_id l1 < pl_id l2") (auto simp: explode_select_def mp)
    then show ?thesis using ma mb by (auto simp: line_qty_def)
  qed
  have "explode_by_line E' po d2
          = Inr (\<lparr>res_created = 0, res_skipped = 5, res_state = ''already''\<rparr>, d2)"
    using explode_idem [OF eb, of E'] total by simp
  with run2 have again:
    "db_txn (explode_by_line E' po) d2
       = (Inr \<lparr>res_created = 0, res_skipped = 5, res_state = ''already''\<rparr>, d2)"
    using run2 by (rule db_txn_commit)

  show ?thesis
    using pv by (auto simp: mint pl1' explode again it2 new_item_fields mid)
qed

text \<open>
  The worked example in \<open>db_gen_swapped\<close>: line 2, of quantity 2, was created before
  line 1, of quantity 3, and is stored after it.
\<close>

lemma swapped_scenario:
  "fresh_prefix db_gen_swapped ''GEN''"
  "distinct (map pl_id (po_lines db_gen_swapped))"
  "filter (\<lambda>l. pl_purchase_order_id l = 7) (po_lines db_gen_swapped)
     = [mk_line 1 7 101 3 (Some 1) None, mk_line 2 7 100 2 (Some 1) None]"
  "created_or (now env0) (mk_line 2 7 100 2 (Some 1) None)
     < created_or (now env0) (mk_line 1 7 101 3 (Some 1) None)"
  "line_prefix db_gen_swapped (mk_line 2 7 100 2 (Some 1) None) = Some ''GEN''"
  "line_prefix db_gen_swapped (mk_line 1 7 101 3 (Some 1) None) = Some ''GEN''"
  "filter (\<lambda>i. ii_purchase_order_id i = Some 7) (inventory_items db_gen_swapped) = []"
  by code_simp+

theorem worked_example_gen_witness:
  "(case synergy_preview env0 7 [1, 2] db_gen_swapped of
      Inl e \<Rightarrow> False
    | Inr (previews, note) \<Rightarrow>
        map (\<lambda>v. (pv_line_id v, pv_codes v)) previews
          = [(2, [''GEN-00001'', ''GEN-00002'']),
             (1, [''GEN-00003'', ''GEN-00004'', ''GEN-00005''])])
   \<and> (case db_txn (mint_synergy env0 7 [] False) db_gen_swapped of
         (Inl e, d1) \<Rightarrow> False
       | (Inr updated, d1) \<Rightarrow>
           updated = 2
           \<and> map (\<lambda>l. (pl_id l, pl_synergy_id l)) (po_lines d1)
               = [(1, Some ''GEN-00002''), (2, Some ''GEN-00001'')]
           \<and> (case db_txn (explode_by_line env0 7) d1 of
                (Inl e, d2) \<Rightarrow> False
              | (Inr r, d2) \<Rightarrow>
                  r = \<lparr>res_created = 5, res_skipped = 0, res_state = ''done''\<rparr>
                  \<and> map (\<lambda>i. (ii_po_line_id i, ii_synergy_code i)) (inventory_items d2)
                      = [(Some 1, ''GEN-00002''), (Some 1, ''GEN-00003''),
                         (Some 1, ''GEN-00004''), (Some 2, ''GEN-00001''),
                         (Some 2, ''GEN-00005'')]
                  \<and> db_txn (explode_by_line env_counter_down 7) d2
                      = (Inr \<lparr>res_created = 0, res_skipped = 5, res_state = ''already''\<rparr>,
                         d2)))"
proof -
  have acc: "\<forall>s. \<not> fails env0 s" by (simp add: env0_def)
  have run: "\<not> txn_aborted db_gen_swapped" by (simp add: db_gen_swapped_def db_gen_def)
  have fields: "pl_qty (mk_line 2 7 100 2 (Some 1) None) = Some 2"
    "pl_qty (mk_line 1 7 101 3 (Some 1) None) = Some 3"
    "pl_synergy_id (mk_line 2 7 100 2 (Some 1) None) = None"
    "pl_synergy_id (mk_line 1 7 101 3 (Some 1) None) = None"
    "pl_id (mk_line 2 7 100 2 (Some 1) None) \<in> set [1, 2]"
    "pl_id (mk_line 1 7 101 3 (Some 1) None) \<in> set [1, 2]"
    by (simp_all add: mk_line_def)
  note inst = worked_example_gen
    [where E = env0 and d = db_gen_swapped and po = 7
       and ?l1.0 = "mk_line 2 7 100 2 (Some 1) None"
       and ?l2.0 = "mk_line 1 7 101 3 (Some 1) None"
       and line_ids = "[1, 2]" and E' = env_counter_down,
     OF acc run swapped_scenario(1) swapped_scenario(2) disjI2 [OF swapped_scenario(3)]
        disjI1 [OF swapped_scenario(4)] swapped_scenario(5) swapped_scenario(6) fields(1-4)
        swapped_scenario(7) fields(5) fields(6)]
  have ids: "pl_id (mk_line 2 7 100 2 (Some 1) None) = 2"
    "pl_id (mk_line 1 7 101 3 (Some 1) None) = 1"
    by (simp_all add: mk_line_def)
  have lines: "po_lines db_gen_swapped
     = [mk_line 1 7 101 3 (Some 1) None, mk_line 2 7 100 2 (Some 1) None]"
    "inventory_items db_gen_swapped = []"
    by (simp_all add: db_gen_swapped_def db_gen_def)
  show ?thesis
    using inst by (auto simp: mk_line_def lines split: sum.splits prod.splits)
qed

lemma reserve_gen_audit_down: "reserve_seq env_audit_down db_gen ''GEN'' = Inr 1"
  by code_simp

text \<open>
  A rejected audit insert inside the mint and inside the explosion: the statement after
  the allocation is refused.
\<close>

lemma mint_rows_audit_rejected:
  assumes "fails E InsertEvent" and "\<not> fails E UpsertCounter"
    and "reserve_seq E d (or_empty_strip p) = Inr n" and "or_empty_strip p \<noteq> []"
  shows "mint_rows E ((lid, p) # rows) (u, d) = Inl InFailedSqlTransaction"
  using alloc_audit_rejected [OF assms(2) assms(1) assms(3), of no_ctx] assms(4)
  by (simp add: Let_def)

lemma explode_units_audit_rejected:
  assumes "fails E InsertEvent" and "\<not> fails E UpsertCounter"
    and "reserve_seq E d prefix = Inr n" and "pl_synergy_id ln = None"
  shows "explode_units E po ln prefix (Suc k) (c, codes, d) = Inl InFailedSqlTransaction"
  using alloc_audit_rejected [OF assms(2) assms(1) assms(3), of no_ctx] assms(4)
  by (simp add: unit_code_def insert_inventory_item_def)

text \<open>
  Claim C7. When the audit insert of an allocation is rejected and the counter can be
  read and written, the \<open>except\<close> clause drops the exception and the request returns the
  code, but nothing is committed: the counter is not advanced to \<open>reserved + 1\<close>, and in
  the mint and in the explosion the statement that follows the allocation raises
  \<open>InFailedSqlTransaction\<close>. When the audit insert is accepted the counter is advanced and
  the event is logged. When the read or the write of the counter is rejected, the
  allocation raises and the state is as it was.
\<close>

theorem audit_failure_rolls_back_counter:
  "(fails E InsertEvent \<and> \<not> fails E UpsertCounter \<and> reserve_seq E d prefix = Inr n \<longrightarrow>
      db_txn (get_next_synergy_code E prefix who) d = (Inr (fmt_synergy prefix n), d)
      \<and> id_prefix_counters d prefix \<noteq> Some (Some (n + 1))
      \<and> (or_empty_strip p = prefix \<and> prefix \<noteq> [] \<longrightarrow>
           mint_rows E ((lid, p) # rows) (u, d) = Inl InFailedSqlTransaction)
      \<and> (pl_synergy_id ln = None \<longrightarrow>
           explode_units E po ln prefix (Suc k) (c, codes, d) = Inl InFailedSqlTransaction))
   \<and> (\<not> fails E InsertEvent \<and> \<not> fails E UpsertCounter \<and> reserve_seq E d prefix = Inr n \<longrightarrow>
      (\<exists>d'. db_txn (get_next_synergy_code E prefix who) d = (Inr (fmt_synergy prefix n), d')
            \<and> id_prefix_counters d' prefix = Some (Some (n + 1))
            \<and> synergy_id_events d'
                = synergy_id_events d @ [mint_event prefix n (fmt_synergy prefix n) who]))
   \<and> (fails E SelectCounter \<or> fails E UpsertCounter \<longrightarrow>
      (\<exists>e. db_txn (get_next_synergy_code E prefix who) d = (Inl e, d)))"
proof (intro conjI impI)
  assume a: "fails E InsertEvent \<and> \<not> fails E UpsertCounter \<and> reserve_seq E d prefix = Inr n"
  then have f: "fails E InsertEvent" and u: "\<not> fails E UpsertCounter"
    and r: "reserve_seq E d prefix = Inr n" by simp_all
  have run: "\<not> txn_aborted d" using reserve_Inr [OF r] by simp
  show "db_txn (get_next_synergy_code E prefix who) d = (Inr (fmt_synergy prefix n), d)"
    using alloc_audit_rejected [OF u f r, of who] run
    by (simp add: db_txn_def begin_same)
  show "id_prefix_counters d prefix \<noteq> Some (Some (n + 1))"
  proof
    assume "id_prefix_counters d prefix = Some (Some (n + 1))"
    from reserve_seq_row [OF this r] show False by simp
  qed
  show "mint_rows E ((lid, p) # rows) (u, d) = Inl InFailedSqlTransaction"
    if "or_empty_strip p = prefix \<and> prefix \<noteq> []" for u
    using that mint_rows_audit_rejected [OF f \<open>\<not> fails E UpsertCounter\<close>, of d p n] r by simp
  show "explode_units E po ln prefix (Suc k) (c, codes, d) = Inl InFailedSqlTransaction"
    if "pl_synergy_id ln = None"
    using that f \<open>\<not> fails E UpsertCounter\<close> r by (rule explode_units_audit_rejected [rotated 3])
next
  assume a: "\<not> fails E InsertEvent \<and> \<not> fails E UpsertCounter \<and> reserve_seq E d prefix = Inr n"
  then have f: "\<not> fails E InsertEvent" and u: "\<not> fails E UpsertCounter"
    and r: "reserve_seq E d prefix = Inr n" by simp_all
  have run: "\<not> txn_aborted d" using reserve_Inr [OF r] by simp
  show "\<exists>d'. db_txn (get_next_synergy_code E prefix who) d = (Inr (fmt_synergy prefix n), d')
            \<and> id_prefix_counters d' prefix = Some (Some (n + 1))
            \<and> synergy_id_events d'
                = synergy_id_events d @ [mint_event prefix n (fmt_synergy prefix n) who]"
    using alloc_accepted [OF u f r, of who] run
    by (simp add: db_txn_def begin_same)
next
  assume "fails E SelectCounter \<or> fails E UpsertCounter"
  then have "\<exists>e. get_next_synergy_code E prefix who (d\<lparr>txn_aborted := False\<rparr>) = Inl e"
    by (auto simp: get_next_synergy_code_def advance_counter_def reserve_seq_def cur_execute_def
        Let_def split: sum.splits option.splits)
  then show "\<exists>e. db_txn (get_next_synergy_code E prefix who) d = (Inl e, d)"
    by (auto simp: db_txn_def)
qed

text \<open>
  The requests \<open>mint_synergy\<close> and \<open>explode_by_line\<close> in \<open>db_gen\<close> when the audit insert is
  rejected: both raise and write nothing.
\<close>

lemma audit_down_requests:
  "(case db_txn (mint_synergy env_audit_down 7 [] False) db_gen of
      (Inl e, d') \<Rightarrow> e = InFailedSqlTransaction \<and> id_prefix_counters d' ''GEN'' = None
                      \<and> map pl_synergy_id (po_lines d') = [None, None]
    | (Inr u, d') \<Rightarrow> False)
   \<and> (case db_txn (explode_by_line env_audit_down 7) db_gen of
      (Inl e, d') \<Rightarrow> e = InFailedSqlTransaction \<and> id_prefix_counters d' ''GEN'' = None
                      \<and> inventory_items d' = []
    | (Inr r, d') \<Rightarrow> False)"
  by code_simp

theorem audit_failure_rolls_back_counter_witness:
  "db_txn (get_next_synergy_code env_audit_down ''GEN'' no_ctx) db_gen
     = (Inr ''GEN-00001'', db_gen)
   \<and> id_prefix_counters db_gen ''GEN'' = None
   \<and> mint_rows env_audit_down [(1, Some ''GEN''), (2, Some ''GEN'')] (0, db_gen)
       = Inl InFailedSqlTransaction
   \<and> explode_units env_audit_down 7 (mk_line 1 7 100 2 (Some 1) None) ''GEN'' 2 (0, [], db_gen)
       = Inl InFailedSqlTransaction
   \<and> (\<exists>d'. db_txn (get_next_synergy_code env0 ''GEN'' no_ctx) db_gen = (Inr ''GEN-00001'', d')
          \<and> id_prefix_counters d' ''GEN'' = Some (Some 2)
          \<and> synergy_id_events d' = [mint_event ''GEN'' 1 ''GEN-00001'' no_ctx])
   \<and> (\<exists>e. db_txn (get_next_synergy_code env_counter_down ''GEN'' no_ctx) db_gen
             = (Inl e, db_gen))"
  using audit_failure_rolls_back_counter
      [where E = env_audit_down and prefix = "''GEN''" and who = no_ctx and d = db_gen and n = 1
         and p = "Some ''GEN''" and lid = 1 and rows = "[(2, Some ''GEN'')]" and u = 0
         and ln = "mk_line 1 7 100 2 (Some 1) None" and po = 7 and k = 1 and c = 0
         and codes = "[]"]
    audit_failure_rolls_back_counter
      [where E = env0 and prefix = "''GEN''" and who = no_ctx and d = db_gen and n = 1]
    audit_failure_rolls_back_counter
      [where E = env_counter_down and prefix = "''GEN''" and who = no_ctx and d = db_gen]
    reserve_gen_audit_down reserve_gen gen_codes(1)
  by (simp add: env_audit_down_def env_counter_down_def env0_def db_gen_def mk_line_def
      or_empty_strip_def strip_def py_isspace_def numeral_2_eq_2)

text \<open>
  Claim C8. The loop of the explosion over any rows gives what it gives over the rows
  that have a category and a prefix, with the quantities of the other rows added to
  \<open>skipped\<close>: same items created, same state, same error if there is one. So does
  \<open>explode_by_line\<close>.
\<close>

theorem unresolved_lines_only_add_to_skipped:
  "explode_rows E po counts rows (c, s, codes, d)
     = add_skipped (unresolved_qty rows)
         (explode_rows E po counts (filter (\<lambda>r. \<not> unresolved r) rows) (c, s, codes, d))
   \<and> explode_by_line E po d
     = (case explode_rows E po (existing_counts_of po d)
               (filter (\<lambda>r. \<not> unresolved r) (explode_select po d))
               (0, 0, existing_codes_of po d, d) of
          Inl e \<Rightarrow> Inl e
        | Inr (c', s', codes', d') \<Rightarrow>
            Inr (\<lparr>res_created = c',
                  res_skipped = s' + unresolved_qty (explode_select po d),
                  res_state = explode_state c' (s' + unresolved_qty (explode_select po d))\<rparr>,
                 d'))"
proof (intro conjI)
  show "explode_rows E po counts rows (c, s, codes, d)
     = add_skipped (unresolved_qty rows)
         (explode_rows E po counts (filter (\<lambda>r. \<not> unresolved r) rows) (c, s, codes, d))"
    by (rule explode_rows_filter')
  show "explode_by_line E po d
     = (case explode_rows E po (existing_counts_of po d)
               (filter (\<lambda>r. \<not> unresolved r) (explode_select po d))
               (0, 0, existing_codes_of po d, d) of
          Inl e \<Rightarrow> Inl e
        | Inr (c', s', codes', d') \<Rightarrow>
            Inr (\<lparr>res_created = c',
                  res_skipped = s' + unresolved_qty (explode_select po d),
                  res_state = explode_state c' (s' + unresolved_qty (explode_select po d))\<rparr>,
                 d'))"
  proof -
    have eq: "explode_rows E po (existing_counts_of po d) (explode_select po d)
                (0, 0, existing_codes_of po d, d)
              = add_skipped (unresolved_qty (explode_select po d))
                  (explode_rows E po (existing_counts_of po d)
                     (filter (\<lambda>r. \<not> unresolved r) (explode_select po d))
                     (0, 0, existing_codes_of po d, d))"
      by (rule explode_rows_filter')
    show ?thesis
      unfolding explode_by_line_def eq
      by (simp add: add_skipped_def split: sum.splits)
  qed
qed

theorem unresolved_lines_only_add_to_skipped_witness:
  "map (\<lambda>r. pl_id (fst r)) (filter unresolved (explode_select 7 db_gen_mixed)) = [3]
   \<and> unresolved_qty (explode_select 7 db_gen_mixed) = 4
   \<and> (case explode_by_line env0 7 db_gen_mixed of
        Inl e \<Rightarrow> False
      | Inr (r, d1) \<Rightarrow>
          res_created r = 5 \<and> res_skipped r = 4 \<and> res_state r = ''partial''
          \<and> map ii_po_line_id (inventory_items d1) = [Some 1, Some 1, Some 2, Some 2, Some 2])"
proof -
  have a: "map (\<lambda>r. pl_id (fst r)) (filter unresolved (explode_select 7 db_gen_mixed)) = [3]"
    by code_simp
  have b: "unresolved_qty (explode_select 7 db_gen_mixed) = 4"
    by code_simp
  have c: "(case explode_rows env0 7 (existing_counts_of 7 db_gen_mixed)
               (filter (\<lambda>r. \<not> unresolved r) (explode_select 7 db_gen_mixed))
               (0, 0, existing_codes_of 7 db_gen_mixed, db_gen_mixed) of
          Inl e \<Rightarrow> False
        | Inr (c', s', codes', d') \<Rightarrow>
            c' = 5 \<and> s' = 0
            \<and> map ii_po_line_id (inventory_items d') = [Some 1, Some 1, Some 2, Some 2, Some 2])"
    by code_simp
  show ?thesis
    using unresolved_lines_only_add_to_skipped
        [where E = env0 and po = 7 and d = db_gen_mixed, THEN conjunct2]
      a b c
    by (auto simp: explode_state_def split: sum.splits)
qed

text \<open>
  Claim C9. \<open>prefix_peek\<close> of \<open>fastapi/routes_synergy.py\<close> calls the name
  \<open>_get_starting_seq_for_prefix\<close>, which is not among the module's globals: for every
  prefix and state the call raises \<open>NameError\<close> and no code is returned.
\<close>

theorem prefix_peek_raises_name_error:
  "prefix_peek E prefix d = Inl (NameError ''_get_starting_seq_for_prefix'')"
  by (simp add: prefix_peek_def call_seq_helper_def routes_synergy_globals_def)

text \<open>
  Claim C10. \<open>fmt_synergy\<close> of \<open>fastapi/routes_synergy.py\<close> pads to five digits, the copies
  in \<open>main.py\<close> and \<open>scraper-py/app.py\<close> to four. For the same prefix the two results
  differ exactly for the sequence numbers from -999 to 9999, so for every sequence number
  from 0 to 9999; the two functions are not equal.
\<close>

theorem fmt_synergy_widths_differ:
  "((fmt_synergy prefix seq \<noteq> fmt_synergy_main prefix seq) = (- 1000 < seq \<and> seq < 10000))
   \<and> fmt_synergy_scraper = fmt_synergy_main
   \<and> fmt_synergy \<noteq> fmt_synergy_main"
proof (intro conjI)
  show "(fmt_synergy prefix seq \<noteq> fmt_synergy_main prefix seq) = (- 1000 < seq \<and> seq < 10000)"
    by (rule fmt_differ_iff)
  show "fmt_synergy_scraper = fmt_synergy_main"
    by (intro ext) (simp add: fmt_synergy_scraper_def fmt_synergy_main_def)
  show "fmt_synergy \<noteq> fmt_synergy_main"
  proof
    assume "fmt_synergy = fmt_synergy_main"
    then have "fmt_synergy [] 1 = fmt_synergy_main [] 1" by simp
    then show False using fmt_differ_iff [of "[]" 1] by simp
  qed
qed

end
